theory Spec2Isabelle
  imports Complex_Main "HOL-Library.AList"
begin

section \<open>JavaScript runtime values\<close>

text \<open>
  The value that \<^verbatim>\<open>JSON.parse\<close> returns, and every object the services build, is a
  JavaScript runtime value: its fields carry no static type. Numbers are modelled as exact
  rationals (rounding to a double, \<^verbatim>\<open>NaN\<close> and the infinities are outside the model:
  \<^verbatim>\<open>JSON.parse\<close> never yields \<^verbatim>\<open>NaN\<close>); strings are byte strings. An object is an
  association list in property order, read with \<open>map_of\<close>.
\<close>

datatype jsval =
    JUndefined
  | JNull
  | JBool bool
  | JNum rat
  | JStr string
  | JArr "jsval list"
  | JObj "(string \<times> jsval) list"

datatype js_type = T_undefined | T_object | T_boolean | T_number | T_string

fun typeof :: "jsval \<Rightarrow> js_type" where
  "typeof JUndefined = T_undefined"
| "typeof JNull = T_object"
| "typeof (JBool b) = T_boolean"
| "typeof (JNum x) = T_number"
| "typeof (JStr s) = T_string"
| "typeof (JArr xs) = T_object"
| "typeof (JObj kvs) = T_object"

fun isArray :: "jsval \<Rightarrow> bool" where
  "isArray (JArr xs) = True"
| "isArray v = False"

text \<open>Truthiness, as \<^verbatim>\<open>!x\<close> and \<^verbatim>\<open>a || b\<close> read it.\<close>

fun truthy :: "jsval \<Rightarrow> bool" where
  "truthy JUndefined = False"
| "truthy JNull = False"
| "truthy (JBool b) = b"
| "truthy (JNum x) = (x \<noteq> 0)"
| "truthy (JStr s) = (s \<noteq> [])"
| "truthy (JArr xs) = True"
| "truthy (JObj kvs) = True"

definition js_or :: "jsval \<Rightarrow> jsval \<Rightarrow> jsval" where
  "js_or a b = (if truthy a then a else b)"

datatype js_exn = TypeError | SyntaxError | RangeError | Error string

definition bind_exn :: "js_exn + 'a \<Rightarrow> ('a \<Rightarrow> js_exn + 'b) \<Rightarrow> js_exn + 'b" where
  "bind_exn x f = (case x of Inl e \<Rightarrow> Inl e | Inr v \<Rightarrow> f v)"

definition nullish :: "jsval \<Rightarrow> bool" where
  "nullish v = (v = JUndefined \<or> v = JNull)"

text \<open>
  \<^verbatim>\<open>o.k\<close> for the property names the services read (\<^verbatim>\<open>candidates\<close>, \<^verbatim>\<open>content\<close>,
  \<^verbatim>\<open>parts\<close>, \<^verbatim>\<open>text\<close>, \<^verbatim>\<open>title\<close>, ...; none of them is inherited from a prototype):
  reading a property of \<^verbatim>\<open>undefined\<close> or \<^verbatim>\<open>null\<close> throws a TypeError, a primitive or
  an array has no such property.
\<close>

fun js_prop :: "jsval \<Rightarrow> string \<Rightarrow> jsval" where
  "js_prop (JObj kvs) k = (case map_of kvs k of Some v \<Rightarrow> v | None \<Rightarrow> JUndefined)"
| "js_prop (JArr xs) k = (if k = ''length'' then JNum (of_nat (length xs)) else JUndefined)"
| "js_prop (JStr s) k = (if k = ''length'' then JNum (of_nat (length s)) else JUndefined)"
| "js_prop v k = JUndefined"

definition member :: "jsval \<Rightarrow> string \<Rightarrow> js_exn + jsval" where
  "member v k = (if nullish v then Inl TypeError else Inr (js_prop v k))"

text \<open>\<^verbatim>\<open>o[0]\<close>: the first element of an array, the first character of a string, the
  property \<^verbatim>\<open>"0"\<close> of an object.\<close>

fun index0 :: "jsval \<Rightarrow> js_exn + jsval" where
  "index0 JUndefined = Inl TypeError"
| "index0 JNull = Inl TypeError"
| "index0 (JArr xs) = Inr (case xs of [] \<Rightarrow> JUndefined | x # _ \<Rightarrow> x)"
| "index0 (JStr s) = Inr (case s of [] \<Rightarrow> JUndefined | c # _ \<Rightarrow> JStr [c])"
| "index0 (JObj kvs) = Inr (case map_of kvs ''0'' of Some v \<Rightarrow> v | None \<Rightarrow> JUndefined)"
| "index0 v = Inr JUndefined"

section \<open>Regular expressions of the services\<close>

text \<open>
  The four patterns of \<^verbatim>\<open>geminiService.ts\<close> are sequences of literal text and of
  \<^verbatim>\<open>[\s\S]*?\<close> (lazy) or \<^verbatim>\<open>[\s\S]*\<close> (greedy), where \<^verbatim>\<open>[\s\S]\<close> matches every
  character. The flag of a star says whether it stands in the capture group 1.
  \<open>match_here\<close> is the backtracking matcher at one start position: a lazy star tries the
  shortest repetition first, a greedy star the longest. \<open>js_match\<close> is
  \<^verbatim>\<open>String.prototype.match\<close> for a regular expression without the global flag: the
  leftmost start position that matches wins; the result is the matched text
  (\<^verbatim>\<open>m[0]\<close>) and group 1 (\<^verbatim>\<open>m[1]\<close>, \<open>None\<close> for \<^verbatim>\<open>undefined\<close>), or \<open>None\<close> for
  \<^verbatim>\<open>null\<close>.
\<close>

datatype rx_item = Lit string | AnyLazy bool | AnyGreedy bool

type_synonym rx_match = "string \<times> string option"

fun match_here :: "rx_item list \<Rightarrow> string \<Rightarrow> rx_match option" where
  "match_here [] s = Some ([], None)"
| "match_here (Lit l # r) s =
     (if take (length l) s = l
      then map_option (\<lambda>(w, g). (l @ w, g)) (match_here r (drop (length l) s))
      else None)"
| "match_here (AnyLazy cap # r) [] =
     map_option (\<lambda>(w, g). (w, if cap then Some [] else g)) (match_here r [])"
| "match_here (AnyLazy cap # r) (c # cs) =
     (case match_here r (c # cs) of
        Some (w, g) \<Rightarrow> Some (w, if cap then Some [] else g)
      | None \<Rightarrow>
          map_option (\<lambda>(w, g). (c # w, if cap then map_option ((#) c) g else g))
            (match_here (AnyLazy cap # r) cs))"
| "match_here (AnyGreedy cap # r) [] =
     map_option (\<lambda>(w, g). (w, if cap then Some [] else g)) (match_here r [])"
| "match_here (AnyGreedy cap # r) (c # cs) =
     (case match_here (AnyGreedy cap # r) cs of
        Some (w, g) \<Rightarrow> Some (c # w, if cap then map_option ((#) c) g else g)
      | None \<Rightarrow>
          map_option (\<lambda>(w, g). (w, if cap then Some [] else g)) (match_here r (c # cs)))"

fun js_match :: "rx_item list \<Rightarrow> string \<Rightarrow> rx_match option" where
  "js_match re [] = match_here re []"
| "js_match re (c # cs) =
     (case match_here re (c # cs) of Some m \<Rightarrow> Some m | None \<Rightarrow> js_match re cs)"

text \<open>\<^verbatim>\<open>/```json\n([\s\S]*?)\n```/\<close>, \<^verbatim>\<open>/```([\s\S]*?)```/\<close>, \<^verbatim>\<open>/{[\s\S]*?}/\<close> and
  (in \<^verbatim>\<open>analyzeExercise\<close>) \<^verbatim>\<open>/\{[\s\S]*\}/\<close>.\<close>

definition re_fenced_json :: "rx_item list" where
  "re_fenced_json = [Lit ''```json\<newline>'', AnyLazy True, Lit ''\<newline>```'']"

definition re_fenced :: "rx_item list" where
  "re_fenced = [Lit ''```'', AnyLazy True, Lit ''```'']"

definition re_object_lazy :: "rx_item list" where
  "re_object_lazy = [Lit ''{'', AnyLazy False, Lit ''}'']"

definition re_object_greedy :: "rx_item list" where
  "re_object_greedy = [Lit ''{'', AnyGreedy False, Lit ''}'']"

section \<open>A decoder for JSON text\<close>

text \<open>
  \<^verbatim>\<open>JSON.parse\<close> belongs to the runtime, not to the repository: the services take it as a
  parameter (\<open>JSON_parse\<close> of the environment, \<open>None\<close> for a thrown SyntaxError), and the
  general theorems hold for every decoder. Where a theorem evaluates a service on a concrete
  text, the decoder is \<open>json_parse\<close> below, written after the JSON grammar (ECMA-404):
  whitespace, the three literals, numbers, strings with their escapes, arrays and objects,
  a repeated key keeping its last value. A \<^verbatim>\<open>\u\<close> escape yields the character of its code
  modulo 256 (a byte string holds no other). The fuel, twice the length of the
  text and one, bounds the depth of the recursion.
\<close>

definition is_ws :: "char \<Rightarrow> bool" where
  "is_ws c = (c = CHR '' '' \<or> c = CHR 0x09 \<or> c = CHR 0x0A \<or> c = CHR 0x0D)"

definition skip_ws :: "string \<Rightarrow> string" where
  "skip_ws s = dropWhile is_ws s"

definition is_digit :: "char \<Rightarrow> bool" where
  "is_digit c = (48 \<le> (of_char c :: nat) \<and> (of_char c :: nat) \<le> 57)"

definition digits_val :: "string \<Rightarrow> nat" where
  "digits_val ds = foldl (\<lambda>a c. 10 * a + ((of_char c :: nat) - 48)) 0 ds"

definition hex_val :: "char \<Rightarrow> nat option" where
  "hex_val c =
     (let n = (of_char c :: nat) in
      if 48 \<le> n \<and> n \<le> 57 then Some (n - 48)
      else if 65 \<le> n \<and> n \<le> 70 then Some (n - 55)
      else if 97 \<le> n \<and> n \<le> 102 then Some (n - 87)
      else None)"

definition parse_exponent :: "string \<Rightarrow> (int \<times> string) option" where
  "parse_exponent s =
     (case s of
        [] \<Rightarrow> Some (0, s)
      | c # r \<Rightarrow>
          if c = CHR ''e'' \<or> c = CHR ''E'' then
            (let neg = (r \<noteq> [] \<and> hd r = CHR ''-'');
                 r' = (if r \<noteq> [] \<and> (hd r = CHR ''-'' \<or> hd r = CHR ''+'') then tl r else r);
                 ds = takeWhile is_digit r'
             in if ds = [] then None
                else Some ((if neg then - int (digits_val ds) else int (digits_val ds)),
                           dropWhile is_digit r'))
          else Some (0, s))"

definition parse_fraction :: "string \<Rightarrow> (rat \<times> string) option" where
  "parse_fraction s =
     (case s of
        [] \<Rightarrow> Some (0, s)
      | c # r \<Rightarrow>
          if c = CHR ''.'' then
            (let ds = takeWhile is_digit r
             in if ds = [] then None
                else Some (of_nat (digits_val ds) / 10 ^ length ds, dropWhile is_digit r))
          else Some (0, s))"

definition parse_number :: "string \<Rightarrow> (rat \<times> string) option" where
  "parse_number s =
     (let neg = (s \<noteq> [] \<and> hd s = CHR ''-'');
          s1 = (if neg then tl s else s);
          ds = (if s1 \<noteq> [] \<and> hd s1 = CHR ''0'' then ''0'' else takeWhile is_digit s1)
      in if ds = [] then None
         else
           (case parse_fraction (drop (length ds) s1) of
              None \<Rightarrow> None
            | Some (f, s2) \<Rightarrow>
                (case parse_exponent s2 of
                   None \<Rightarrow> None
                 | Some (e, s3) \<Rightarrow>
                     Some ((if neg then - 1 else 1) * (of_nat (digits_val ds) + f) * 10 powi e,
                           s3))))"

definition unescape :: "char \<Rightarrow> char option" where
  "unescape c =
     (if c = CHR 0x22 \<or> c = CHR 0x5C \<or> c = CHR ''/'' then Some c
      else if c = CHR ''b'' then Some (CHR 0x08)
      else if c = CHR ''f'' then Some (CHR 0x0C)
      else if c = CHR ''n'' then Some (CHR 0x0A)
      else if c = CHR ''r'' then Some (CHR 0x0D)
      else if c = CHR ''t'' then Some (CHR 0x09)
      else None)"

definition parse_hex4 :: "string \<Rightarrow> char option" where
  "parse_hex4 s =
     (case map hex_val (take 4 s) of
        [Some a, Some b, Some c, Some d] \<Rightarrow> Some (char_of (4096 * a + 256 * b + 16 * c + d))
      | _ \<Rightarrow> None)"

text \<open>The characters of a string after its opening quote, up to the closing one.\<close>

function parse_string_body :: "string \<Rightarrow> (string \<times> string) option" where
  "parse_string_body [] = None"
| "parse_string_body (c # s) =
     (if c = CHR 0x22 then Some ([], s)
      else if c = CHR 0x5C then
        (case s of
           [] \<Rightarrow> None
         | e # r \<Rightarrow>
             if e = CHR ''u'' then
               (case parse_hex4 r of
                  None \<Rightarrow> None
                | Some x \<Rightarrow> map_option (\<lambda>(t, rest). (x # t, rest)) (parse_string_body (drop 4 r)))
             else
               (case unescape e of
                  None \<Rightarrow> None
                | Some x \<Rightarrow> map_option (\<lambda>(t, rest). (x # t, rest)) (parse_string_body r)))
      else if (of_char c :: nat) < 32 then None
      else map_option (\<lambda>(t, rest). (c # t, rest)) (parse_string_body s))"
  by pat_completeness auto
termination
  by (relation "measure length") auto

definition obj_of :: "(string \<times> jsval) list \<Rightarrow> (string \<times> jsval) list" where
  "obj_of ms = foldl (\<lambda>kvs (k, v). AList.update k v kvs) [] ms"

fun parse_value :: "nat \<Rightarrow> string \<Rightarrow> (jsval \<times> string) option"
  and parse_elements :: "nat \<Rightarrow> string \<Rightarrow> (jsval list \<times> string) option"
  and parse_members :: "nat \<Rightarrow> string \<Rightarrow> ((string \<times> jsval) list \<times> string) option"
where
  "parse_value 0 s = None"
| "parse_value (Suc n) s =
     (let t = skip_ws s in
      if t = [] then None
      else if hd t = CHR ''{'' then
        (let u = skip_ws (tl t) in
         if u \<noteq> [] \<and> hd u = CHR ''}'' then Some (JObj [], tl u)
         else map_option (\<lambda>(ms, r). (JObj (obj_of ms), r)) (parse_members n u))
      else if hd t = CHR ''['' then
        (let u = skip_ws (tl t) in
         if u \<noteq> [] \<and> hd u = CHR '']'' then Some (JArr [], tl u)
         else map_option (\<lambda>(vs, r). (JArr vs, r)) (parse_elements n u))
      else if hd t = CHR 0x22 then
        map_option (\<lambda>(x, r). (JStr x, r)) (parse_string_body (tl t))
      else if take 4 t = ''true'' then Some (JBool True, drop 4 t)
      else if take 5 t = ''false'' then Some (JBool False, drop 5 t)
      else if take 4 t = ''null'' then Some (JNull, drop 4 t)
      else map_option (\<lambda>(x, r). (JNum x, r)) (parse_number t))"
| "parse_elements 0 s = None"
| "parse_elements (Suc n) s =
     (case parse_value n s of
        None \<Rightarrow> None
      | Some (v, r) \<Rightarrow>
          (let u = skip_ws r in
           if u \<noteq> [] \<and> hd u = CHR '','' then
             map_option (\<lambda>(vs, r'). (v # vs, r')) (parse_elements n (tl u))
           else if u \<noteq> [] \<and> hd u = CHR '']'' then Some ([v], tl u)
           else None))"
| "parse_members 0 s = None"
| "parse_members (Suc n) s =
     (let t = skip_ws s in
      if t \<noteq> [] \<and> hd t = CHR 0x22 then
        (case parse_string_body (tl t) of
           None \<Rightarrow> None
         | Some (k, r) \<Rightarrow>
             (let u = skip_ws r in
              if u \<noteq> [] \<and> hd u = CHR '':'' then
                (case parse_value n (tl u) of
                   None \<Rightarrow> None
                 | Some (v, r2) \<Rightarrow>
                     (let w = skip_ws r2 in
                      if w \<noteq> [] \<and> hd w = CHR '','' then
                        map_option (\<lambda>(ms, r3). ((k, v) # ms, r3)) (parse_members n (tl w))
                      else if w \<noteq> [] \<and> hd w = CHR ''}'' then Some ([(k, v)], tl w)
                      else None))
              else None))
      else None)"

definition json_parse :: "string \<Rightarrow> jsval option" where
  "json_parse s =
     (case parse_value (Suc (2 * length s)) s of
        None \<Rightarrow> None
      | Some (v, r) \<Rightarrow> if skip_ws r = [] then Some v else None)"

section \<open>The AI service: \<^verbatim>\<open>services/geminiService.ts\<close>\<close>

text \<open>
  What a service needs from outside is a parameter: the credential
  \<^verbatim>\<open>process.env.EXPO_PUBLIC_GEMINI_API_KEY\<close> (\<open>None\<close> when the variable is absent), the
  runtime's \<^verbatim>\<open>JSON.parse\<close>, and what the network answers if it is asked. A service returns
  its result together with the network calls it made, in order. The prompts only shape the
  request and are left out, as is the console output.
\<close>

record gemini_env =
  EXPO_PUBLIC_GEMINI_API_KEY :: "string option"
  JSON_parse :: "string \<Rightarrow> jsval option"

text \<open>\<^verbatim>\<open>!process.env.EXPO_PUBLIC_GEMINI_API_KEY\<close>\<close>

definition key_missing :: "gemini_env \<Rightarrow> bool" where
  "key_missing env =
     (case EXPO_PUBLIC_GEMINI_API_KEY env of None \<Rightarrow> True | Some k \<Rightarrow> k = [])"

datatype net_call =
    Fetch string
  | GenerateContent

text \<open>
  The outcome of \<^verbatim>\<open>await fetch(url, ...)\<close>: the promise rejects, or it yields a response
  with its \<^verbatim>\<open>ok\<close> flag and the value of \<^verbatim>\<open>await response.json()\<close> (\<open>None\<close> when the body
  is not JSON and the call rejects).
\<close>

datatype fetch_outcome =
    FetchRejects
  | Response bool "jsval option"

text \<open>The outcome of \<^verbatim>\<open>model.generateContent(prompt)\<close> followed by
  \<^verbatim>\<open>response.text()\<close> of the SDK.\<close>

datatype sdk_outcome =
    SdkRejects
  | SdkText string

definition apiUrl :: string where
  "apiUrl =
     ''https://generativelanguage.googleapis.com/v1beta/models/gemini-2.0-flash:generateContent''"

definition request_url :: "gemini_env \<Rightarrow> string" where
  "request_url env =
     apiUrl @ ''?key='' @ (case EXPO_PUBLIC_GEMINI_API_KEY env of None \<Rightarrow> ''undefined'' | Some k \<Rightarrow> k)"

text \<open>\<^verbatim>\<open>data.candidates[0].content.parts[0].text\<close>; the \<^verbatim>\<open>.match\<close> that follows throws
  unless the value is a string.\<close>

definition textContent :: "jsval \<Rightarrow> js_exn + string" where
  "textContent data =
     bind_exn (member data ''candidates'') (\<lambda>candidates.
     bind_exn (index0 candidates) (\<lambda>candidate.
     bind_exn (member candidate ''content'') (\<lambda>content.
     bind_exn (member content ''parts'') (\<lambda>parts.
     bind_exn (index0 parts) (\<lambda>part.
     bind_exn (member part ''text'') (\<lambda>t.
       case t of JStr s \<Rightarrow> Inr s | _ \<Rightarrow> Inl TypeError))))))"

text \<open>
  \<^verbatim>\<open>textContent.match(/```json\n([\s\S]*?)\n```/) || textContent.match(/```([\s\S]*?)```/)
  || textContent.match(/{[\s\S]*?}/)\<close>, the same expression in \<^verbatim>\<open>analyzeFoodImage\<close>,
  \<^verbatim>\<open>getNutritionRecommendations\<close> and \<^verbatim>\<open>analyzeWeightTrends\<close>.
\<close>

definition jsonMatch :: "string \<Rightarrow> rx_match option" where
  "jsonMatch text =
     (case js_match re_fenced_json text of
        Some m \<Rightarrow> Some m
      | None \<Rightarrow>
          (case js_match re_fenced text of
             Some m \<Rightarrow> Some m
           | None \<Rightarrow> js_match re_object_lazy text))"

text \<open>\<^verbatim>\<open>jsonMatch[1] || jsonMatch[0]\<close>: an absent or empty group 1 gives the whole match.\<close>

definition jsonStr :: "rx_match \<Rightarrow> string" where
  "jsonStr m =
     (case snd m of
        Some g \<Rightarrow> if g \<noteq> [] then g else fst m
      | None \<Rightarrow> fst m)"

text \<open>The \<^verbatim>\<open>if (jsonMatch) { try { ... JSON.parse(jsonStr) } catch { default } } else
  { default }\<close> block that assigns \<^verbatim>\<open>parsedResult\<close>.\<close>

definition parsedResult :: "gemini_env \<Rightarrow> jsval \<Rightarrow> string \<Rightarrow> jsval" where
  "parsedResult env dflt text =
     (case jsonMatch text of
        Some m \<Rightarrow> (case JSON_parse env (jsonStr m) of Some v \<Rightarrow> v | None \<Rightarrow> dflt)
      | None \<Rightarrow> dflt)"

definition createDefaultResult :: jsval where
  "createDefaultResult =
     JObj [(''title'', JStr ''Unknown Meal''),
           (''items'', JArr [JStr ''Unknown food item'']),
           (''calories'', JNum 0),
           (''protein'', JNum 0),
           (''carbs'', JNum 0),
           (''fats'', JNum 0)]"

definition createDefaultNutritionGoals :: jsval where
  "createDefaultNutritionGoals =
     JObj [(''calories'', JNum 2000),
           (''protein'', JNum 150),
           (''carbs'', JNum 200),
           (''fats'', JNum 65)]"

definition createDefaultWeightAnalysis :: jsval where
  "createDefaultWeightAnalysis =
     JObj [(''trend'', JStr ''maintaining''),
           (''averageWeeklyChange'', JNum 0),
           (''feedback'', JStr
              ''We couldn't analyze your weight trends at this time. Keep logging your weight regularly.''),
           (''recommendedActions'', JArr
              [JStr ''Continue logging your weight daily or weekly'',
               JStr ''Stay consistent with your nutrition plan'',
               JStr ''Make sure to track all your meals and exercises''])]"

text \<open>The result of a \<^verbatim>\<open>try\<close> block and the calls made in it; \<open>catch_default\<close> is the
  \<^verbatim>\<open>catch (error) { return default }\<close> around it.\<close>

type_synonym 'a attempt = "(js_exn + 'a) \<times> net_call list"

definition catch_default :: "jsval \<Rightarrow> jsval attempt \<Rightarrow> jsval \<times> net_call list" where
  "catch_default dflt a = (case fst a of Inl e \<Rightarrow> (dflt, snd a) | Inr v \<Rightarrow> (v, snd a))"

text \<open>
  The part of the three \<^verbatim>\<open>fetch\<close>-based services between the request and the text of the
  answer: a rejected \<^verbatim>\<open>fetch\<close>, a response that is not \<^verbatim>\<open>ok\<close>, a body that is not JSON
  and an answer without the text each throw.
\<close>

definition response_text :: "fetch_outcome \<Rightarrow> js_exn + string" where
  "response_text net =
     (case net of
        FetchRejects \<Rightarrow> Inl (Error ''Network request failed'')
      | Response ok body \<Rightarrow>
          if \<not> ok then Inl (Error ''Gemini API error'')
          else (case body of None \<Rightarrow> Inl SyntaxError | Some data \<Rightarrow> textContent data))"

subsection \<open>\<^verbatim>\<open>analyzeFoodImage\<close>\<close>

definition foodFields :: "jsval \<Rightarrow> js_exn + jsval" where
  "foodFields p =
     (if nullish p then Inl TypeError
      else Inr (JObj
        [(''title'', if typeof (js_prop p ''title'') = T_string then js_prop p ''title''
                     else JStr ''Unknown Meal''),
         (''items'', if isArray (js_prop p ''items'') then js_prop p ''items''
                     else JArr [JStr ''Unknown food item'']),
         (''calories'', if typeof (js_prop p ''calories'') = T_number then js_prop p ''calories''
                        else JNum 0),
         (''protein'', if typeof (js_prop p ''protein'') = T_number then js_prop p ''protein''
                       else JNum 0),
         (''carbs'', if typeof (js_prop p ''carbs'') = T_number then js_prop p ''carbs''
                     else JNum 0),
         (''fats'', if typeof (js_prop p ''fats'') = T_number then js_prop p ''fats''
                    else JNum 0)]))"

definition analyzeFoodImage_try :: "gemini_env \<Rightarrow> string \<Rightarrow> fetch_outcome \<Rightarrow> jsval attempt" where
  "analyzeFoodImage_try env base64Image net =
     (if key_missing env then (Inr createDefaultResult, [])
      else
        (bind_exn (response_text net) (\<lambda>text.
           foodFields (parsedResult env createDefaultResult text)),
         [Fetch (request_url env)]))"

definition analyzeFoodImage :: "gemini_env \<Rightarrow> string \<Rightarrow> fetch_outcome \<Rightarrow> jsval \<times> net_call list" where
  "analyzeFoodImage env base64Image net =
     catch_default createDefaultResult (analyzeFoodImage_try env base64Image net)"

subsection \<open>\<^verbatim>\<open>getNutritionRecommendations\<close>\<close>

definition nutritionFields :: "jsval \<Rightarrow> js_exn + jsval" where
  "nutritionFields p =
     (if nullish p then Inl TypeError
      else Inr (JObj
        [(''calories'', if typeof (js_prop p ''calories'') = T_number then js_prop p ''calories''
                        else JNum 2000),
         (''protein'', if typeof (js_prop p ''protein'') = T_number then js_prop p ''protein''
                       else JNum 150),
         (''carbs'', if typeof (js_prop p ''carbs'') = T_number then js_prop p ''carbs''
                     else JNum 200),
         (''fats'', if typeof (js_prop p ''fats'') = T_number then js_prop p ''fats''
                    else JNum 65)]))"

definition getNutritionRecommendations_try :: "gemini_env \<Rightarrow> fetch_outcome \<Rightarrow> jsval attempt" where
  "getNutritionRecommendations_try env net =
     (if key_missing env then (Inr createDefaultNutritionGoals, [])
      else
        (bind_exn (response_text net) (\<lambda>text.
           nutritionFields (parsedResult env createDefaultNutritionGoals text)),
         [Fetch (request_url env)]))"

definition getNutritionRecommendations :: "gemini_env \<Rightarrow> fetch_outcome \<Rightarrow> jsval \<times> net_call list" where
  "getNutritionRecommendations env net =
     catch_default createDefaultNutritionGoals (getNutritionRecommendations_try env net)"

subsection \<open>\<^verbatim>\<open>analyzeExercise\<close>\<close>

text \<open>\<^verbatim>\<open>ExerciseData\<close>; its \<^verbatim>\<open>userStats\<close> only enter the prompt.\<close>

record ExerciseData =
  ex_type :: string
  duration :: rat
  description :: string
  intensity :: string

text \<open>\<^verbatim>\<open>`${exerciseData.type} (${exerciseData.intensity || "Moderate"})`\<close>\<close>

definition exerciseTitle :: "ExerciseData \<Rightarrow> string" where
  "exerciseTitle d =
     ex_type d @ '' ('' @ (if intensity d \<noteq> [] then intensity d else ''Moderate'') @ '')''"

definition exerciseFallback :: "ExerciseData \<Rightarrow> jsval" where
  "exerciseFallback d =
     JObj [(''title'', JStr (exerciseTitle d)),
           (''caloriesBurned'', JNum 0),
           (''description'', JStr (description d))]"

definition exerciseFields :: "ExerciseData \<Rightarrow> jsval \<Rightarrow> js_exn + jsval" where
  "exerciseFields d p =
     (if nullish p then Inl TypeError
      else Inr (JObj
        [(''title'', js_or (js_prop p ''title'') (JStr (exerciseTitle d))),
         (''caloriesBurned'', js_or (js_prop p ''caloriesBurned'') (JNum 0)),
         (''description'', js_or (js_prop p ''description'') (JStr (description d)))]))"

text \<open>\<^verbatim>\<open>text.match(/\{[\s\S]*\}/)\<close>\<close>

definition exerciseJsonMatch :: "string \<Rightarrow> rx_match option" where
  "exerciseJsonMatch text = js_match re_object_greedy text"

definition analyzeExercise_try :: "gemini_env \<Rightarrow> ExerciseData \<Rightarrow> sdk_outcome \<Rightarrow> jsval attempt" where
  "analyzeExercise_try env exerciseData sdk =
     (if key_missing env then (Inl (Error ''Gemini API key is not configured''), [])
      else
        ((case sdk of
            SdkRejects \<Rightarrow> Inl (Error ''generateContent failed'')
          | SdkText text \<Rightarrow>
              (case exerciseJsonMatch text of
                 None \<Rightarrow> Inl (Error ''Invalid response format from Gemini'')
               | Some m \<Rightarrow>
                   (case JSON_parse env (fst m) of
                      None \<Rightarrow> Inl SyntaxError
                    | Some p \<Rightarrow> exerciseFields exerciseData p))),
         [GenerateContent]))"

definition analyzeExercise :: "gemini_env \<Rightarrow> ExerciseData \<Rightarrow> sdk_outcome \<Rightarrow> jsval \<times> net_call list" where
  "analyzeExercise env exerciseData sdk =
     catch_default (exerciseFallback exerciseData) (analyzeExercise_try env exerciseData sdk)"

subsection \<open>\<^verbatim>\<open>analyzeWeightTrends\<close>\<close>

text \<open>A weight sample; \<^verbatim>\<open>entry.date.toISOString()\<close> throws a RangeError on an invalid
  date.\<close>

datatype js_date = Date int | InvalidDate

record weight_entry =
  weight :: rat
  date :: js_date

definition notEnoughData :: jsval where
  "notEnoughData =
     JObj [(''trend'', JStr ''maintaining''),
           (''averageWeeklyChange'', JNum 0),
           (''feedback'', JStr
              ''Not enough data to analyze trends. Keep logging your weight regularly.''),
           (''recommendedActions'', JArr [JStr ''Continue logging your weight daily or weekly''])]"

definition analyzeWeightTrends_try ::
  "gemini_env \<Rightarrow> weight_entry list \<Rightarrow> rat \<Rightarrow> string \<Rightarrow> fetch_outcome \<Rightarrow> jsval attempt" where
  "analyzeWeightTrends_try env weightData goalWeight weeklyGoal net =
     (if length weightData < 2 then (Inr notEnoughData, [])
      else if key_missing env then (Inl (Error ''Gemini API key is not configured''), [])
      else if \<exists>entry \<in> set weightData. date entry = InvalidDate then (Inl RangeError, [])
      else
        (bind_exn (response_text net) (\<lambda>text.
           Inr (parsedResult env createDefaultWeightAnalysis text)),
         [Fetch (request_url env)]))"

definition analyzeWeightTrends ::
  "gemini_env \<Rightarrow> weight_entry list \<Rightarrow> rat \<Rightarrow> string \<Rightarrow> fetch_outcome \<Rightarrow> jsval \<times> net_call list" where
  "analyzeWeightTrends env weightData goalWeight weeklyGoal net =
     catch_default createDefaultWeightAnalysis
       (analyzeWeightTrends_try env weightData goalWeight weeklyGoal net)"

section \<open>The auth provider: \<^verbatim>\<open>AuthProvider\<close>\<close>

text \<open>
  The provider holds four React state cells and talks to Firebase Auth, to AsyncStorage and
  to the router. A function of the provider is modelled by the trace of what it does, in
  order: the state setters it calls, the storage and remote operations it awaits, the
  navigations it asks for. \<open>apply_effects\<close> replays a trace on the state cells.
  \<^verbatim>\<open>AsyncStorage.setItem\<close> is guarded by a \<^verbatim>\<open>try\<close> that logs and goes on, so its outcome
  changes no trace; \<^verbatim>\<open>AsyncStorage.removeItem\<close> is awaited unguarded, so what it throws
  (\<open>removal\<close>, \<open>None\<close> when it resolves) leaves \<^verbatim>\<open>saveAuthSession\<close> and ends whatever
  awaits it outside a \<^verbatim>\<open>try\<close>.
\<close>

record User =
  user_id :: string
  user_email :: "string option"

record FirebaseUser =
  uid :: string
  email :: "string option"

record AuthSession =
  userId :: string
  session_email :: "string option"
  lastLogin :: int

record auth_state =
  user :: "User option"
  isLoading :: bool
  authReady :: bool
  initializing :: bool

text \<open>A thrown value: a Firebase error carries a \<^verbatim>\<open>code\<close>, a plain \<^verbatim>\<open>new Error(message)\<close>
  has none.\<close>

datatype thrown = Thrown "string option" string

fun code :: "thrown \<Rightarrow> string option" where
  "code (Thrown c m) = c"

datatype auth_effect =
    SetUser "User option"
  | SetIsLoading bool
  | SetAuthReady bool
  | SetInitializing bool
  | RemoveItem string
  | SetItem string AuthSession
  | RouterReplace string
  | SignInWithEmailAndPassword string string
  | CreateUserWithEmailAndPassword string string
  | FirebaseSignOut
  | DeleteUser FirebaseUser

fun apply_effect :: "auth_state \<Rightarrow> auth_effect \<Rightarrow> auth_state" where
  "apply_effect s (SetUser u) = s\<lparr>user := u\<rparr>"
| "apply_effect s (SetIsLoading b) = s\<lparr>isLoading := b\<rparr>"
| "apply_effect s (SetAuthReady b) = s\<lparr>authReady := b\<rparr>"
| "apply_effect s (SetInitializing b) = s\<lparr>initializing := b\<rparr>"
| "apply_effect s e = s"

definition apply_effects :: "auth_state \<Rightarrow> auth_effect list \<Rightarrow> auth_state" where
  "apply_effects s es = foldl apply_effect s es"

definition AUTH_SESSION_KEY :: string where
  "AUTH_SESSION_KEY = ''calpal_auth_session''"

text \<open>The four \<^verbatim>\<open>useState\<close> initial values.\<close>

definition initial_state :: auth_state where
  "initial_state = \<lparr>user = None, isLoading = True, authReady = False, initializing = True\<rparr>"

definition formatUser :: "FirebaseUser option \<Rightarrow> User option" where
  "formatUser firebaseUser =
     (case firebaseUser of
        None \<Rightarrow> None
      | Some fu \<Rightarrow> Some \<lparr>user_id = uid fu, user_email = email fu\<rparr>)"

text \<open>\<open>now\<close> is the value of \<^verbatim>\<open>Date.now()\<close>. The result is what the call throws, if
  anything, and its trace.\<close>

definition saveAuthSession ::
  "thrown option \<Rightarrow> int \<Rightarrow> User option \<Rightarrow> thrown option \<times> auth_effect list" where
  "saveAuthSession removal now u =
     (case u of
        None \<Rightarrow> (removal, [RemoveItem AUTH_SESSION_KEY])
      | Some usr \<Rightarrow>
          (None,
           [SetItem AUTH_SESSION_KEY
              \<lparr>userId = user_id usr, session_email = user_email usr, lastLogin = now\<rparr>]))"

definition handleAuthNavigation :: "User option \<Rightarrow> auth_effect list" where
  "handleAuthNavigation currentUser =
     (case currentUser of
        Some u \<Rightarrow> [RouterReplace ''/'']
      | None \<Rightarrow> [RouterReplace ''/(onboarding)/welcome''])"

text \<open>
  The callback given to \<^verbatim>\<open>onAuthStateChanged\<close>. It reads \<^verbatim>\<open>authReady\<close> and
  \<^verbatim>\<open>initializing\<close> from the render that subscribed it (\<open>seen\<close>), not from the cells as
  they are when it runs. It is \<^verbatim>\<open>async\<close> and nothing catches in it: when
  \<^verbatim>\<open>saveAuthSession\<close> throws, the callback ends there.
\<close>

definition authStateChanged ::
  "auth_state \<Rightarrow> thrown option \<Rightarrow> int \<Rightarrow> FirebaseUser option \<Rightarrow> auth_effect list" where
  "authStateChanged seen removal now firebaseUser =
     (let formattedUser = formatUser firebaseUser;
          saved = (case formattedUser of
                     Some u \<Rightarrow> saveAuthSession removal now formattedUser
                   | None \<Rightarrow> saveAuthSession removal now None)
      in SetUser formattedUser # snd saved
         @ (case fst saved of
              Some error \<Rightarrow> []
            | None \<Rightarrow>
                (if \<not> authReady seen then [SetAuthReady True] else [])
                @ [SetIsLoading False]
                @ (if initializing seen then [SetInitializing False]
                   else handleAuthNavigation formattedUser)))"

text \<open>
  The provider is its state cells and the render whose callback is subscribed. The effect
  that subscribes has the dependencies \<^verbatim>\<open>[authReady, initializing]\<close>: some time after
  a change of either, React runs it again and subscribes a callback that has seen the
  cells as they are then (\<open>Resubscribe\<close>). Until then the upstream events (the time, the
  Firebase user, and what \<^verbatim>\<open>removeItem\<close> throws if it is called) go to the callback
  subscribed before. When React re-subscribes is not the provider's choice, so a run is
  given by a schedule of events and re-subscriptions. A callback is taken to run without
  another in between; the properties below depend on a callback only through the render
  that subscribed it and the outcome of its storage call. \<open>reconcile\<close> gives, for each
  event of the schedule, its trace and the cells after it.
\<close>

record provider =
  cells :: auth_state
  subscribed :: auth_state

datatype step =
    AuthEvent int "FirebaseUser option" "thrown option"
  | Resubscribe

definition initial_provider :: provider where
  "initial_provider = \<lparr>cells = initial_state, subscribed = initial_state\<rparr>"

fun reconcile :: "provider \<Rightarrow> step list \<Rightarrow> (auth_effect list \<times> auth_state) list" where
  "reconcile p [] = []"
| "reconcile p (Resubscribe # steps) = reconcile (p\<lparr>subscribed := cells p\<rparr>) steps"
| "reconcile p (AuthEvent now firebaseUser removal # steps) =
     (let es = authStateChanged (subscribed p) removal now firebaseUser;
          c = apply_effects (cells p) es
      in (es, c) # reconcile (p\<lparr>cells := c\<rparr>) steps)"

fun is_navigation :: "auth_effect \<Rightarrow> bool" where
  "is_navigation (RouterReplace r) = True"
| "is_navigation e = False"

subsection \<open>\<^verbatim>\<open>signIn\<close>, \<^verbatim>\<open>signUp\<close>, \<^verbatim>\<open>signOut\<close>, \<^verbatim>\<open>deleteAccount\<close>\<close>

text \<open>
  Each takes what \<^verbatim>\<open>removeItem\<close> throws if it is called and the outcome of the Firebase
  call it awaits, and returns what the caller sees (\<open>Inl\<close> the value thrown to it) with the
  trace. Each body is one \<^verbatim>\<open>try\<close> whose \<^verbatim>\<open>catch\<close> calls \<^verbatim>\<open>setIsLoading(false)\<close> and
  throws the error on.
\<close>

definition signIn ::
  "thrown option \<Rightarrow> int \<Rightarrow> string \<Rightarrow> string \<Rightarrow> thrown + FirebaseUser
     \<Rightarrow> (thrown + unit) \<times> auth_effect list" where
  "signIn removal now email_arg password remote =
     (case remote of
        Inr credential_user \<Rightarrow>
          (case saveAuthSession removal now (formatUser (Some credential_user)) of
             (None, saved) \<Rightarrow>
               (Inr (),
                [SetIsLoading True, SignInWithEmailAndPassword email_arg password] @ saved)
           | (Some error, saved) \<Rightarrow>
               (Inl error,
                [SetIsLoading True, SignInWithEmailAndPassword email_arg password] @ saved
                @ [SetIsLoading False]))
      | Inl error \<Rightarrow>
          (Inl error,
           [SetIsLoading True, SignInWithEmailAndPassword email_arg password,
            SetIsLoading False]))"

definition signUp ::
  "thrown option \<Rightarrow> int \<Rightarrow> string \<Rightarrow> string \<Rightarrow> thrown + FirebaseUser
     \<Rightarrow> (thrown + unit) \<times> auth_effect list" where
  "signUp removal now email_arg password remote =
     (case remote of
        Inr credential_user \<Rightarrow>
          (case saveAuthSession removal now (formatUser (Some credential_user)) of
             (None, saved) \<Rightarrow>
               (Inr (),
                [SetIsLoading True, CreateUserWithEmailAndPassword email_arg password] @ saved)
           | (Some error, saved) \<Rightarrow>
               (Inl error,
                [SetIsLoading True, CreateUserWithEmailAndPassword email_arg password] @ saved
                @ [SetIsLoading False]))
      | Inl error \<Rightarrow>
          (Inl error,
           [SetIsLoading True, CreateUserWithEmailAndPassword email_arg password,
            SetIsLoading False]))"

definition signOut ::
  "thrown option \<Rightarrow> int \<Rightarrow> thrown + unit \<Rightarrow> (thrown + unit) \<times> auth_effect list" where
  "signOut removal now remote =
     (case saveAuthSession removal now None of
        (Some error, saved) \<Rightarrow> (Inl error, SetIsLoading True # saved @ [SetIsLoading False])
      | (None, saved) \<Rightarrow>
          (case remote of
             Inr u \<Rightarrow> (Inr (), SetIsLoading True # saved @ [FirebaseSignOut])
           | Inl error \<Rightarrow>
               (Inl error, SetIsLoading True # saved @ [FirebaseSignOut, SetIsLoading False])))"

definition reloginMessage :: string where
  "reloginMessage =
     ''For security reasons, please sign out and sign in again before deleting your account.''"

text \<open>The inner \<^verbatim>\<open>catch\<close> of \<^verbatim>\<open>deleteAccount\<close>: what it throws for the error it caught.\<close>

definition rethrown :: "thrown \<Rightarrow> thrown" where
  "rethrown error =
     (if code error = Some ''auth/requires-recent-login'' then Thrown None reloginMessage
      else error)"

text \<open>\<open>currentUser\<close> is \<^verbatim>\<open>auth.currentUser\<close>.\<close>

definition deleteAccount ::
  "thrown option \<Rightarrow> int \<Rightarrow> FirebaseUser option \<Rightarrow> thrown + unit
     \<Rightarrow> (thrown + unit) \<times> auth_effect list" where
  "deleteAccount removal now currentUser remote =
     (case currentUser of
        None \<Rightarrow>
          (Inl (Thrown None ''No authenticated user found''),
           [SetIsLoading True, SetIsLoading False])
      | Some cu \<Rightarrow>
          (case saveAuthSession removal now None of
             (Some error, saved) \<Rightarrow>
               (Inl (rethrown error), SetIsLoading True # saved @ [SetIsLoading False])
           | (None, saved) \<Rightarrow>
               (case remote of
                  Inr u \<Rightarrow> (Inr (), SetIsLoading True # saved @ [DeleteUser cu])
                | Inl error \<Rightarrow>
                    (Inl (rethrown error),
                     SetIsLoading True # saved @ [DeleteUser cu, SetIsLoading False]))))"

section \<open>The billing configuration (RevenueCat)\<close>

text \<open>
  The module's constants, with the two API keys of the Expo configuration as parameters
  (\<^verbatim>\<open>Constants.expoConfig?.extra?.revenueCatApiKeyIOS || ""\<close>). The functions take the
  constants as an argument, so that a statement can speak of an empty identifier; \<open>RC\<close> is
  the configuration the module has. \<open>os\<close> is \<^verbatim>\<open>Platform.OS\<close>.
\<close>

record rc_config =
  IOS :: string
  ANDROID :: string
  PREMIUM_MONTHLY :: string
  PREMIUM_YEARLY :: string
  PREMIUM :: string
  DEFAULT :: string

definition RC :: "string \<Rightarrow> string \<Rightarrow> rc_config" where
  "RC ios_key android_key =
     \<lparr>IOS = ios_key, ANDROID = android_key,
      PREMIUM_MONTHLY = ''com.calpal.ai.Monthly'',
      PREMIUM_YEARLY = ''com.calpal.ai.Annual'',
      PREMIUM = ''Premium'',
      DEFAULT = ''ofrng44a064495d''\<rparr>"

datatype rc_effect =
    PurchasesConfigure string
  | GetCustomerInfo
  | ConsoleWarn string
  | ConsoleError string

fun is_sdk_call :: "rc_effect \<Rightarrow> bool" where
  "is_sdk_call (PurchasesConfigure k) = True"
| "is_sdk_call GetCustomerInfo = True"
| "is_sdk_call e = False"

definition getApiKey :: "string \<Rightarrow> rc_config \<Rightarrow> string" where
  "getApiKey os cfg = (if os = ''ios'' then IOS cfg else ANDROID cfg)"

definition validateRevenueCatConfig :: "string \<Rightarrow> rc_config \<Rightarrow> bool \<times> rc_effect list" where
  "validateRevenueCatConfig os cfg =
     (if os = ''ios'' \<and> IOS cfg = [] then
        (False, [ConsoleWarn ''RevenueCat iOS API key is not configured''])
      else if os = ''android'' \<and> ANDROID cfg = [] then
        (False, [ConsoleWarn ''RevenueCat Android API key is not configured''])
      else if PREMIUM_MONTHLY cfg = [] \<or> PREMIUM_YEARLY cfg = [] then
        (False, [ConsoleWarn ''RevenueCat product IDs are not configured properly''])
      else if PREMIUM cfg = [] then
        (False, [ConsoleWarn ''RevenueCat entitlements are not configured properly''])
      else if DEFAULT cfg = [] then
        (False, [ConsoleWarn ''RevenueCat offerings are not configured properly''])
      else (True, []))"

text \<open>What the SDK answers: whether \<^verbatim>\<open>Purchases.configure\<close> and
  \<^verbatim>\<open>Purchases.getCustomerInfo\<close> throw.\<close>

record purchases_sdk =
  configure_throws :: bool
  getCustomerInfo_throws :: bool

definition configureRevenueCat :: "string \<Rightarrow> rc_config \<Rightarrow> purchases_sdk \<Rightarrow> bool \<times> rc_effect list" where
  "configureRevenueCat os cfg sdk =
     (case validateRevenueCatConfig os cfg of
        (valid, warnings) \<Rightarrow>
          if \<not> valid then
            (False, warnings @ [ConsoleWarn ''RevenueCat configuration validation failed''])
          else if configure_throws sdk then
            (False,
             warnings @ [PurchasesConfigure (getApiKey os cfg),
                         ConsoleError ''Failed to configure RevenueCat:''])
          else
            (True,
             warnings @ [PurchasesConfigure (getApiKey os cfg), GetCustomerInfo]
             @ (if getCustomerInfo_throws sdk
                then [ConsoleWarn ''Could not fetch initial customer info:''] else [])))"

section \<open>Inputs and notions the properties speak of\<close>

text \<open>A successful answer of the API whose first candidate carries the text \<open>t\<close>.\<close>

definition reply :: "string \<Rightarrow> fetch_outcome" where
  "reply t =
     Response True (Some (JObj [(''candidates'', JArr [JObj [(''content'',
       JObj [(''parts'', JArr [JObj [(''text'', JStr t)]])])]])]))"

text \<open>An environment with the credential \<open>k\<close> and the decoder of the JSON grammar.\<close>

definition runtime :: "string \<Rightarrow> gemini_env" where
  "runtime k = \<lparr>EXPO_PUBLIC_GEMINI_API_KEY = Some k, JSON_parse = json_parse\<rparr>"

text \<open>The navigation for a Firebase user: to \<^verbatim>\<open>/\<close> when the mapped user is not null,
  to the welcome screen when it is.\<close>

definition navigation_of :: "FirebaseUser option \<Rightarrow> auth_effect list" where
  "navigation_of firebaseUser =
     (case formatUser firebaseUser of
        Some u \<Rightarrow> [RouterReplace ''/'']
      | None \<Rightarrow> [RouterReplace ''/(onboarding)/welcome''])"

text \<open>The schedule in which React re-subscribes the callback after every event and no
  storage call throws.\<close>

fun serial :: "(int \<times> FirebaseUser option) list \<Rightarrow> step list" where
  "serial [] = []"
| "serial ((now, firebaseUser) # evs) =
     AuthEvent now firebaseUser None # Resubscribe # serial evs"

text \<open>
  The extraction as the specification words it: an ordered list of candidate patterns is
  tried on the text, the first pattern that matches wins, and no match means that no
  payload was found.
\<close>

fun first_match :: "rx_item list list \<Rightarrow> string \<Rightarrow> rx_match option" where
  "first_match [] text = None"
| "first_match (re # res) text =
     (case js_match re text of Some m \<Rightarrow> Some m | None \<Rightarrow> first_match res text)"

text \<open>The payload of the food example, and the object it denotes.\<close>

definition salad_payload :: string where
  "salad_payload =
     ''{\"title\":\"Salad\",\"items\":[\"lettuce\"],\"calories\":\"oops\",\"protein\":5,\"carbs\":10,\"fats\":2}''"

definition salad_object :: jsval where
  "salad_object =
     JObj [(''title'', JStr ''Salad''), (''items'', JArr [JStr ''lettuce'']),
           (''calories'', JStr ''oops''), (''protein'', JNum 5),
           (''carbs'', JNum 10), (''fats'', JNum 2)]"

section \<open>Properties of the AI service\<close>

lemma key_missing_iff:
  "key_missing env \<longleftrightarrow>
     EXPO_PUBLIC_GEMINI_API_KEY env = None \<or> EXPO_PUBLIC_GEMINI_API_KEY env = Some []"
  by (simp add: key_missing_def split: option.splits)

lemma response_text_reply [simp]: "response_text (reply t) = Inr t"
  by (simp add: reply_def response_text_def textContent_def bind_exn_def member_def nullish_def)

text \<open>The two services that validate each field return numbers in every numeric field,
  whatever the credential, the network and the decoder do.\<close>

lemma foodFields_numeric:
  assumes "foodFields p = Inr r"
  shows "typeof (js_prop r ''calories'') = T_number \<and> typeof (js_prop r ''protein'') = T_number
       \<and> typeof (js_prop r ''carbs'') = T_number \<and> typeof (js_prop r ''fats'') = T_number"
  using assms by (auto simp add: foodFields_def split: if_splits)

lemma analyzeFoodImage_numeric_fields:
  "typeof (js_prop (fst (analyzeFoodImage env base64Image net)) ''calories'') = T_number
 \<and> typeof (js_prop (fst (analyzeFoodImage env base64Image net)) ''protein'') = T_number
 \<and> typeof (js_prop (fst (analyzeFoodImage env base64Image net)) ''carbs'') = T_number
 \<and> typeof (js_prop (fst (analyzeFoodImage env base64Image net)) ''fats'') = T_number"
proof (cases "fst (analyzeFoodImage_try env base64Image net)")
  case (Inl e)
  then show ?thesis
    by (simp add: analyzeFoodImage_def catch_default_def createDefaultResult_def)
next
  case (Inr r)
  then have "r = createDefaultResult \<or> (\<exists>p. foodFields p = Inr r)"
    by (auto simp add: analyzeFoodImage_try_def bind_exn_def split: if_splits sum.splits)
  then have "typeof (js_prop r ''calories'') = T_number \<and> typeof (js_prop r ''protein'') = T_number
       \<and> typeof (js_prop r ''carbs'') = T_number \<and> typeof (js_prop r ''fats'') = T_number"
    using foodFields_numeric by (auto simp add: createDefaultResult_def)
  with Inr show ?thesis
    by (simp add: analyzeFoodImage_def catch_default_def)
qed

lemma nutritionFields_numeric:
  assumes "nutritionFields p = Inr r"
  shows "typeof (js_prop r ''calories'') = T_number \<and> typeof (js_prop r ''protein'') = T_number
       \<and> typeof (js_prop r ''carbs'') = T_number \<and> typeof (js_prop r ''fats'') = T_number"
  using assms by (auto simp add: nutritionFields_def split: if_splits)

lemma getNutritionRecommendations_numeric_fields:
  "typeof (js_prop (fst (getNutritionRecommendations env net)) ''calories'') = T_number
 \<and> typeof (js_prop (fst (getNutritionRecommendations env net)) ''protein'') = T_number
 \<and> typeof (js_prop (fst (getNutritionRecommendations env net)) ''carbs'') = T_number
 \<and> typeof (js_prop (fst (getNutritionRecommendations env net)) ''fats'') = T_number"
proof (cases "fst (getNutritionRecommendations_try env net)")
  case (Inl e)
  then show ?thesis
    by (simp add: getNutritionRecommendations_def catch_default_def createDefaultNutritionGoals_def)
next
  case (Inr r)
  then have "r = createDefaultNutritionGoals \<or> (\<exists>p. nutritionFields p = Inr r)"
    by (auto simp add: getNutritionRecommendations_try_def bind_exn_def split: if_splits sum.splits)
  then have "typeof (js_prop r ''calories'') = T_number \<and> typeof (js_prop r ''protein'') = T_number
       \<and> typeof (js_prop r ''carbs'') = T_number \<and> typeof (js_prop r ''fats'') = T_number"
    using nutritionFields_numeric by (auto simp add: createDefaultNutritionGoals_def)
  with Inr show ?thesis
    by (simp add: getNutritionRecommendations_def catch_default_def)
qed

lemma json_parse_exercise_reply:
  "json_parse ''{\"title\":\"Evening run\",\"caloriesBurned\":\"about 300\",\"description\":\"5 km\"}'' =
     Some (JObj [(''title'', JStr ''Evening run''), (''caloriesBurned'', JStr ''about 300''),
                 (''description'', JStr ''5 km'')])"
  by code_simp

lemma json_parse_trend_reply:
  "json_parse ''{\"trend\":\"losing\",\"feedback\":\"Keep going\"}'' =
     Some (JObj [(''trend'', JStr ''losing''), (''feedback'', JStr ''Keep going'')])"
  by code_simp

lemma exerciseJsonMatch_exercise_reply:
  "exerciseJsonMatch ''{\"title\":\"Evening run\",\"caloriesBurned\":\"about 300\",\"description\":\"5 km\"}'' =
     Some (''{\"title\":\"Evening run\",\"caloriesBurned\":\"about 300\",\"description\":\"5 km\"}'', None)"
  by (simp add: exerciseJsonMatch_def re_object_greedy_def)

lemma jsonMatch_trend_reply:
  "jsonMatch ''{\"trend\":\"losing\",\"feedback\":\"Keep going\"}'' =
     Some (''{\"trend\":\"losing\",\"feedback\":\"Keep going\"}'', None)"
  by (simp add: jsonMatch_def re_fenced_json_def re_fenced_def re_object_lazy_def)

text \<open>
  C1. The claim is that every numeric field of every result is a number. It holds for
  \<^verbatim>\<open>analyzeFoodImage\<close> and \<^verbatim>\<open>getNutritionRecommendations\<close>, which test
  \<^verbatim>\<open>typeof ... === "number"\<close> field by field (the two lemmas above). It fails for the
  other two: \<^verbatim>\<open>analyzeExercise\<close> keeps any truthy \<^verbatim>\<open>caloriesBurned\<close>
  (\<^verbatim>\<open>parsedResult.caloriesBurned || 0\<close>), here a string, and \<^verbatim>\<open>analyzeWeightTrends\<close>
  returns the decoded value as it is, here without \<^verbatim>\<open>averageWeeklyChange\<close>.
\<close>

theorem C1_numeric_fields_unchecked:
  "analyzeExercise (runtime ''AIza-key'')
     \<lparr>ex_type = ''Running'', duration = 30, description = ''Morning jog'', intensity = ''High''\<rparr>
     (SdkText ''{\"title\":\"Evening run\",\"caloriesBurned\":\"about 300\",\"description\":\"5 km\"}'') =
     (JObj [(''title'', JStr ''Evening run''), (''caloriesBurned'', JStr ''about 300''),
            (''description'', JStr ''5 km'')], [GenerateContent])
   \<and> analyzeWeightTrends (runtime ''AIza-key'')
       [\<lparr>weight = 80, date = Date 0\<rparr>, \<lparr>weight = 79, date = Date 604800000\<rparr>] 75 ''lose''
       (reply ''{\"trend\":\"losing\",\"feedback\":\"Keep going\"}'') =
     (JObj [(''trend'', JStr ''losing''), (''feedback'', JStr ''Keep going'')],
      [Fetch (apiUrl @ ''?key=AIza-key'')])
   \<and> typeof (js_prop (JObj [(''title'', JStr ''Evening run''),
                             (''caloriesBurned'', JStr ''about 300''),
                             (''description'', JStr ''5 km'')]) ''caloriesBurned'') = T_string
   \<and> typeof (js_prop (JObj [(''trend'', JStr ''losing''), (''feedback'', JStr ''Keep going'')])
               ''averageWeeklyChange'') = T_undefined"
proof -
  have ex: "analyzeExercise (runtime ''AIza-key'')
     \<lparr>ex_type = ''Running'', duration = 30, description = ''Morning jog'', intensity = ''High''\<rparr>
     (SdkText ''{\"title\":\"Evening run\",\"caloriesBurned\":\"about 300\",\"description\":\"5 km\"}'') =
     (JObj [(''title'', JStr ''Evening run''), (''caloriesBurned'', JStr ''about 300''),
            (''description'', JStr ''5 km'')], [GenerateContent])"
    by (simp add: analyzeExercise_def analyzeExercise_try_def catch_default_def key_missing_def
        runtime_def exerciseJsonMatch_exercise_reply json_parse_exercise_reply exerciseFields_def
        nullish_def js_or_def)
  have wt: "analyzeWeightTrends (runtime ''AIza-key'')
       [\<lparr>weight = 80, date = Date 0\<rparr>, \<lparr>weight = 79, date = Date 604800000\<rparr>] 75 ''lose''
       (reply ''{\"trend\":\"losing\",\"feedback\":\"Keep going\"}'') =
     (JObj [(''trend'', JStr ''losing''), (''feedback'', JStr ''Keep going'')],
      [Fetch (apiUrl @ ''?key=AIza-key'')])"
    by (simp add: analyzeWeightTrends_def analyzeWeightTrends_try_def catch_default_def
        key_missing_def runtime_def bind_exn_def parsedResult_def jsonMatch_trend_reply
        jsonStr_def json_parse_trend_reply request_url_def)
  show ?thesis using ex wt by simp
qed

text \<open>
  C2. With the credential \<^verbatim>\<open>EXPO_PUBLIC_GEMINI_API_KEY\<close> absent or empty, each of the four
  services makes no network call and returns the default of its kind, whatever the network
  would have answered; for \<^verbatim>\<open>analyzeWeightTrends\<close> this needs at least two samples, since
  the count of the samples is checked first.
\<close>

theorem C2_missing_credential:
  assumes "EXPO_PUBLIC_GEMINI_API_KEY env = None \<or> EXPO_PUBLIC_GEMINI_API_KEY env = Some ''''"
  shows "analyzeFoodImage env base64Image net =
           (JObj [(''title'', JStr ''Unknown Meal''),
                  (''items'', JArr [JStr ''Unknown food item'']),
                  (''calories'', JNum 0), (''protein'', JNum 0),
                  (''carbs'', JNum 0), (''fats'', JNum 0)], [])
       \<and> getNutritionRecommendations env net =
           (JObj [(''calories'', JNum 2000), (''protein'', JNum 150),
                  (''carbs'', JNum 200), (''fats'', JNum 65)], [])
       \<and> analyzeExercise env d sdk =
           (JObj [(''title'', JStr (ex_type d @ '' ('' @
                      (if intensity d = '''' then ''Moderate'' else intensity d) @ '')'')),
                  (''caloriesBurned'', JNum 0),
                  (''description'', JStr (description d))], [])
       \<and> (2 \<le> length weightData \<longrightarrow>
            analyzeWeightTrends env weightData goalWeight weeklyGoal net =
              (JObj [(''trend'', JStr ''maintaining''),
                     (''averageWeeklyChange'', JNum 0),
                     (''feedback'', JStr
                        ''We couldn't analyze your weight trends at this time. Keep logging your weight regularly.''),
                     (''recommendedActions'', JArr
                        [JStr ''Continue logging your weight daily or weekly'',
                         JStr ''Stay consistent with your nutrition plan'',
                         JStr ''Make sure to track all your meals and exercises''])], []))"
proof -
  from assms have k: "key_missing env" by (simp add: key_missing_iff)
  have food: "analyzeFoodImage env base64Image net = (createDefaultResult, [])"
    using k by (simp add: analyzeFoodImage_def analyzeFoodImage_try_def catch_default_def)
  have nutrition: "getNutritionRecommendations env net = (createDefaultNutritionGoals, [])"
    using k by (simp add: getNutritionRecommendations_def getNutritionRecommendations_try_def
        catch_default_def)
  have exercise: "analyzeExercise env d sdk = (exerciseFallback d, [])"
    using k by (simp add: analyzeExercise_def analyzeExercise_try_def catch_default_def)
  have trend: "2 \<le> length weightData \<Longrightarrow>
      analyzeWeightTrends env weightData goalWeight weeklyGoal net = (createDefaultWeightAnalysis, [])"
    using k by (simp add: analyzeWeightTrends_def analyzeWeightTrends_try_def catch_default_def)
  show ?thesis
    using food nutrition exercise trend
    by (simp add: createDefaultResult_def createDefaultNutritionGoals_def exerciseFallback_def
        exerciseTitle_def createDefaultWeightAnalysis_def)
qed

theorem C2_missing_credential_witness:
  "analyzeFoodImage \<lparr>EXPO_PUBLIC_GEMINI_API_KEY = None, JSON_parse = json_parse\<rparr> ''/9j/4AAQ''
       (reply ''{}'') =
     (JObj [(''title'', JStr ''Unknown Meal''),
            (''items'', JArr [JStr ''Unknown food item'']),
            (''calories'', JNum 0), (''protein'', JNum 0),
            (''carbs'', JNum 0), (''fats'', JNum 0)], [])
   \<and> analyzeExercise \<lparr>EXPO_PUBLIC_GEMINI_API_KEY = Some '''', JSON_parse = json_parse\<rparr>
       \<lparr>ex_type = ''Running'', duration = 30, description = ''Morning jog'', intensity = ''''\<rparr>
       (SdkText ''{}'') =
     (JObj [(''title'', JStr ''Running (Moderate)''),
            (''caloriesBurned'', JNum 0),
            (''description'', JStr ''Morning jog'')], [])
   \<and> snd (analyzeWeightTrends \<lparr>EXPO_PUBLIC_GEMINI_API_KEY = None, JSON_parse = json_parse\<rparr>
       [\<lparr>weight = 80, date = Date 0\<rparr>, \<lparr>weight = 79, date = Date 604800000\<rparr>]
       75 ''lose'' (reply ''{}'')) = []"
  using C2_missing_credential
      [of "\<lparr>EXPO_PUBLIC_GEMINI_API_KEY = None, JSON_parse = json_parse\<rparr>" "''/9j/4AAQ''"
          "reply ''{}''"
          "\<lparr>ex_type = ''Running'', duration = 30, description = ''Morning jog'', intensity = ''''\<rparr>"
          "SdkText ''{}''"
          "[\<lparr>weight = 80, date = Date 0\<rparr>, \<lparr>weight = 79, date = Date 604800000\<rparr>]"
          75 "''lose''"]
    C2_missing_credential
      [of "\<lparr>EXPO_PUBLIC_GEMINI_API_KEY = Some '''', JSON_parse = json_parse\<rparr>" "''/9j/4AAQ''"
          "reply ''{}''"
          "\<lparr>ex_type = ''Running'', duration = 30, description = ''Morning jog'', intensity = ''''\<rparr>"
          "SdkText ''{}''" "[]" 75 "''lose''"]
  by simp

subsection \<open>What the patterns match\<close>

text \<open>
  A pattern that starts with a literal cannot match where the text does not show the first
  character of the literal; and literal, lazy star, literal matches the first block whose
  body does not show the first character of the closing literal.
\<close>

lemma match_here_Lit_last [simp]:
  "match_here [Lit b] s = (if take (length b) s = b then Some (b, None) else None)"
  by simp

lemma match_here_lazy_found:
  assumes "b \<noteq> []" and "hd b \<notin> set body"
  shows "match_here [AnyLazy cap, Lit b] (body @ b @ post) =
           Some (body @ b, if cap then Some body else None)"
  using assms
proof (induction body)
  case Nil
  then show ?case by (cases b) auto
next
  case (Cons x body)
  from Cons.prems have "x \<noteq> hd b" by auto
  with Cons.prems have "take (length b) (x # body @ b @ post) \<noteq> b"
    by (cases b) auto
  with Cons show ?case by simp
qed

lemma match_here_fenced_found:
  assumes "b \<noteq> []" and "hd b \<notin> set body"
  shows "match_here [Lit a, AnyLazy cap, Lit b] (a @ body @ b @ post) =
           Some (a @ body @ b, if cap then Some body else None)"
  using match_here_lazy_found [OF assms, of cap post] by simp

lemma js_match_here:
  "match_here re s = Some m \<Longrightarrow> js_match re s = Some m"
  by (cases s) simp_all

lemma match_here_Lit_mismatch:
  "a \<noteq> [] \<Longrightarrow> x \<noteq> hd a \<Longrightarrow> match_here (Lit a # r) (x # s) = None"
  by (cases a) auto

lemma js_match_skip:
  assumes "a \<noteq> []" and "hd a \<notin> set pre"
  shows "js_match (Lit a # r) (pre @ s) = js_match (Lit a # r) s"
  using assms by (induction pre) (auto simp: match_here_Lit_mismatch simp del: match_here.simps)

lemma js_match_absent:
  assumes "a \<noteq> []" and "hd a \<notin> set s"
  shows "js_match (Lit a # r) s = None"
  using assms
proof (induction s)
  case Nil
  then show ?case by (cases a) auto
next
  case (Cons x s)
  then show ?case by (auto simp: match_here_Lit_mismatch simp del: match_here.simps)
qed

lemma js_match_found:
  assumes "a \<noteq> []" and "hd a \<notin> set pre" and "b \<noteq> []" and "hd b \<notin> set body"
  shows "js_match [Lit a, AnyLazy cap, Lit b] (pre @ a @ body @ b @ post) =
           Some (a @ body @ b, if cap then Some body else None)"
  using js_match_skip [OF assms(1,2)] js_match_here [OF match_here_fenced_found [OF assms(3,4)]]
  by simp

lemma salad_payload_split:
  "salad_payload = ''{'' @ butlast (tl salad_payload) @ ''}''"
  by (simp add: salad_payload_def)

lemma salad_payload_chars:
  "CHR 0x60 \<notin> set salad_payload"
  "CHR ''\<newline>'' \<notin> set salad_payload"
  "CHR ''}'' \<notin> set (butlast (tl salad_payload))"
  by (simp_all add: salad_payload_def)

lemma jsonMatch_bare_salad:
  assumes "CHR 0x60 \<notin> set pre" and "CHR ''{'' \<notin> set pre" and "CHR 0x60 \<notin> set post"
  shows "jsonMatch (pre @ salad_payload @ post) = Some (salad_payload, None)"
proof -
  have tick: "CHR 0x60 \<notin> set (pre @ salad_payload @ post)"
    using assms salad_payload_chars(1) by simp
  have no1: "js_match re_fenced_json (pre @ salad_payload @ post) = None"
    unfolding re_fenced_json_def using tick by (intro js_match_absent) simp_all
  have no2: "js_match re_fenced (pre @ salad_payload @ post) = None"
    unfolding re_fenced_def using tick by (intro js_match_absent) simp_all
  have "js_match [Lit ''{'', AnyLazy False, Lit ''}'']
          (pre @ ''{'' @ butlast (tl salad_payload) @ ''}'' @ post) =
        Some (''{'' @ butlast (tl salad_payload) @ ''}'', if False then Some (butlast (tl salad_payload)) else None)"
    using assms(2) salad_payload_chars(3) by (intro js_match_found) simp_all
  moreover have "pre @ salad_payload @ post = pre @ ''{'' @ butlast (tl salad_payload) @ ''}'' @ post"
    by (subst salad_payload_split) simp
  moreover have "''{'' @ butlast (tl salad_payload) @ ''}'' = salad_payload"
    by (rule salad_payload_split [symmetric])
  ultimately have "js_match re_object_lazy (pre @ salad_payload @ post) = Some (salad_payload, None)"
    by (simp only: re_object_lazy_def if_False)
  with no1 no2 show ?thesis by (simp add: jsonMatch_def)
qed

lemma jsonMatch_fenced_salad:
  assumes "CHR 0x60 \<notin> set pre"
  shows "jsonMatch (pre @ ''```json\<newline>'' @ salad_payload @ ''\<newline>```'' @ post) =
           Some (''```json\<newline>'' @ salad_payload @ ''\<newline>```'', Some salad_payload)"
proof -
  have "js_match [Lit ''```json\<newline>'', AnyLazy True, Lit ''\<newline>```'']
          (pre @ ''```json\<newline>'' @ salad_payload @ ''\<newline>```'' @ post) =
        Some (''```json\<newline>'' @ salad_payload @ ''\<newline>```'',
              if True then Some salad_payload else None)"
    using assms salad_payload_chars(2) by (intro js_match_found) simp_all
  then show ?thesis by (simp add: jsonMatch_def re_fenced_json_def)
qed

lemma salad_payload_nonempty: "salad_payload \<noteq> []"
  by (simp add: salad_payload_def)

lemma foodFields_salad:
  "foodFields salad_object =
     Inr (JObj [(''title'', JStr ''Salad''), (''items'', JArr [JStr ''lettuce'']),
                (''calories'', JNum 0), (''protein'', JNum 5),
                (''carbs'', JNum 10), (''fats'', JNum 2)])"
  by (simp add: foodFields_def salad_object_def nullish_def)

lemma analyzeFoodImage_decoded:
  assumes "\<not> key_missing env" and "response_text net = Inr text"
    and "jsonMatch text = Some m" and "JSON_parse env (jsonStr m) = Some p"
  shows "analyzeFoodImage env base64Image net =
           catch_default createDefaultResult (foodFields p, [Fetch (request_url env)])"
  using assms
  by (simp add: analyzeFoodImage_def analyzeFoodImage_try_def parsedResult_def bind_exn_def)

lemma match_here_lazy_absent:
  assumes "c \<in> set b" and "c \<notin> set s"
  shows "match_here [AnyLazy cap, Lit b] s = None"
  using assms(2)
proof (induction s)
  case Nil
  with assms(1) show ?case by (cases b) auto
next
  case (Cons x s)
  have "take (length b) (x # s) \<noteq> b"
  proof
    assume "take (length b) (x # s) = b"
    then have "set b \<subseteq> set (x # s)" by (metis set_take_subset)
    with assms(1) Cons.prems show False by auto
  qed
  with Cons show ?case by simp
qed

lemma js_match_Cons_None:
  "match_here re (c # cs) = None \<Longrightarrow> js_match re (c # cs) = js_match re cs"
  by simp

text \<open>The labelled pattern finds nothing in an unlabelled fence whose body does not start
  with \<^verbatim>\<open>j\<close>, when no other backtick is in the text.\<close>

lemma fenced_json_not_in_plain_fence:
  assumes "CHR 0x60 \<notin> set pre" and "CHR 0x60 \<notin> set body" and "CHR 0x60 \<notin> set post"
    and "body \<noteq> []" and "hd body \<noteq> CHR ''j''"
  shows "js_match re_fenced_json (pre @ ''```'' @ body @ ''```'' @ post) = None"
proof -
  obtain x xs where body: "body = x # xs" using assms(4) by (cases body) auto
  have x: "x \<noteq> CHR 0x60" "x \<noteq> CHR ''j''" using assms(2,5) body by auto
  let ?re = "[Lit ''```json\<newline>'', AnyLazy True, Lit ''\<newline>```'']"
  have tail: "js_match ?re (''```'' @ post) = None"
  proof -
    have lazy: "match_here [AnyLazy True, Lit ''\<newline>```''] (drop n post) = None" for n
      using assms(3) by (intro match_here_lazy_absent [of "CHR 0x60"])
        (auto dest: in_set_dropD)
    have "match_here ?re (''```'' @ post) = None"
      by (simp del: match_here.simps(3,4) add: lazy)
    moreover have "match_here ?re (''``'' @ post) = None"
      using assms(3) by (cases post) auto
    moreover have "match_here ?re (''`'' @ post) = None"
      using assms(3) by (cases post) auto
    moreover have "js_match ?re post = None"
      using assms(3) by (intro js_match_absent) simp_all
    ultimately show ?thesis by simp
  qed
  have "js_match ?re (pre @ ''```'' @ body @ ''```'' @ post) =
        js_match ?re (''```'' @ body @ ''```'' @ post)"
    using assms(1) by (intro js_match_skip) simp_all
  also have "\<dots> = js_match ?re (body @ ''```'' @ post)"
    using x by (simp add: body)
  also have "\<dots> = js_match ?re (''```'' @ post)"
    using assms(2) by (intro js_match_skip) simp_all
  finally show ?thesis using tail by (simp add: re_fenced_json_def)
qed

lemma jsonMatch_plain_fence:
  assumes "CHR 0x60 \<notin> set pre" and "CHR 0x60 \<notin> set body" and "CHR 0x60 \<notin> set post"
    and "body \<noteq> []" and "hd body \<noteq> CHR ''j''"
  shows "jsonMatch (pre @ ''```'' @ body @ ''```'' @ post) =
           Some (''```'' @ body @ ''```'', Some body)"
proof -
  have "js_match [Lit ''```'', AnyLazy True, Lit ''```''] (pre @ ''```'' @ body @ ''```'' @ post) =
        Some (''```'' @ body @ ''```'', if True then Some body else None)"
    using assms(1,2) by (intro js_match_found) simp_all
  then show ?thesis
    using fenced_json_not_in_plain_fence [OF assms]
    by (simp add: jsonMatch_def re_fenced_def)
qed

lemma jsonMatch_plain_fence_salad:
  assumes "CHR 0x60 \<notin> set pre" and "CHR 0x60 \<notin> set post"
  shows "jsonMatch (pre @ ''```\<newline>'' @ salad_payload @ ''\<newline>```'' @ post) =
           Some (''```\<newline>'' @ salad_payload @ ''\<newline>```'',
                 Some (''\<newline>'' @ salad_payload @ ''\<newline>''))"
  using jsonMatch_plain_fence [OF assms(1) _ assms(2), of "''\<newline>'' @ salad_payload @ ''\<newline>''"]
    salad_payload_chars(1)
  by simp



lemma json_parse_salad:
  "json_parse salad_payload = Some salad_object"
  "json_parse (''\<newline>'' @ salad_payload @ ''\<newline>'') = Some salad_object"
  unfolding salad_payload_def salad_object_def by code_simp+


text \<open>
  C4. With fewer than two weight samples \<^verbatim>\<open>analyzeWeightTrends\<close> makes no network call and
  returns exactly the "not enough data" result. The check comes before every other one: the
  result does not depend on the credential, on the dates or on the network.
\<close>

theorem C4_not_enough_data:
  assumes "length weightData < 2"
  shows "analyzeWeightTrends env weightData goalWeight weeklyGoal net =
           (JObj [(''trend'', JStr ''maintaining''),
                  (''averageWeeklyChange'', JNum 0),
                  (''feedback'', JStr
                     ''Not enough data to analyze trends. Keep logging your weight regularly.''),
                  (''recommendedActions'', JArr
                     [JStr ''Continue logging your weight daily or weekly''])], [])"
  using assms
  by (simp add: analyzeWeightTrends_def analyzeWeightTrends_try_def catch_default_def
      notEnoughData_def)

theorem C4_not_enough_data_witness:
  "length [\<lparr>weight = 80, date = InvalidDate\<rparr>] < 2
   \<and> analyzeWeightTrends \<lparr>EXPO_PUBLIC_GEMINI_API_KEY = None, JSON_parse = json_parse\<rparr>
       [\<lparr>weight = 80, date = InvalidDate\<rparr>] 75 ''lose'' FetchRejects =
     (JObj [(''trend'', JStr ''maintaining''),
            (''averageWeeklyChange'', JNum 0),
            (''feedback'', JStr
               ''Not enough data to analyze trends. Keep logging your weight regularly.''),
            (''recommendedActions'', JArr
               [JStr ''Continue logging your weight daily or weekly''])], [])"
  using C4_not_enough_data
      [of "[\<lparr>weight = 80, date = InvalidDate\<rparr>]"
          "\<lparr>EXPO_PUBLIC_GEMINI_API_KEY = None, JSON_parse = json_parse\<rparr>" 75 "''lose''"
          FetchRejects]
  by simp

text \<open>
  C5, as stated, does not hold: the extraction of \<^verbatim>\<open>analyzeExercise\<close> is not that of
  the three other services. On a bare nested object the three stop at the first closing
  brace and \<^verbatim>\<open>analyzeExercise\<close> at the last; on a fenced block without braces the three
  find a payload and \<^verbatim>\<open>analyzeExercise\<close> finds none.
\<close>

theorem C5_exercise_extraction_counterexample:
  "jsonMatch ''{\"a\":{\"b\":1}}'' = Some (''{\"a\":{\"b\":1}'', None)
   \<and> exerciseJsonMatch ''{\"a\":{\"b\":1}}'' = Some (''{\"a\":{\"b\":1}}'', None)
   \<and> jsonMatch ''```\<newline>42\<newline>```'' = Some (''```\<newline>42\<newline>```'', Some ''\<newline>42\<newline>'')
   \<and> exerciseJsonMatch ''```\<newline>42\<newline>```'' = None"
  by (simp add: jsonMatch_def exerciseJsonMatch_def re_fenced_json_def re_fenced_def
      re_object_lazy_def re_object_greedy_def)

lemma jsonMatch_first_match:
  "jsonMatch text = first_match [re_fenced_json, re_fenced, re_object_lazy] text"
  by (simp add: jsonMatch_def split: option.splits)

lemma parsedResult_first_match:
  "parsedResult env dflt text =
     (case first_match [re_fenced_json, re_fenced, re_object_lazy] text of
        None \<Rightarrow> dflt
      | Some m \<Rightarrow> (case JSON_parse env (jsonStr m) of None \<Rightarrow> dflt | Some v \<Rightarrow> v))"
  by (simp add: parsedResult_def jsonMatch_first_match split: option.splits)

text \<open>
  C5, amended. In \<^verbatim>\<open>analyzeFoodImage\<close>, \<^verbatim>\<open>getNutritionRecommendations\<close> and
  \<^verbatim>\<open>analyzeWeightTrends\<close> the payload is located by the same three patterns tried in a
  fixed order: the fenced and labelled block, the fenced block, then the bare span from the
  first opening brace to the first closing brace after it; the first pattern that matches
  wins, and without a match the default stands in for the payload. \<^verbatim>\<open>analyzeExercise\<close>
  tries one pattern, the span from the first opening brace to the last closing brace, and
  returns its fallback when it does not match.
\<close>

theorem C5_extraction_patterns:
  assumes "\<not> key_missing env"
  shows "(response_text net = Inr text \<longrightarrow>
            analyzeFoodImage env base64Image net =
              catch_default createDefaultResult
                (foodFields
                   (case first_match [re_fenced_json, re_fenced, re_object_lazy] text of
                      None \<Rightarrow> createDefaultResult
                    | Some m \<Rightarrow>
                        (case JSON_parse env (jsonStr m) of
                           None \<Rightarrow> createDefaultResult | Some v \<Rightarrow> v)),
                 [Fetch (request_url env)])
          \<and> getNutritionRecommendations env net =
              catch_default createDefaultNutritionGoals
                (nutritionFields
                   (case first_match [re_fenced_json, re_fenced, re_object_lazy] text of
                      None \<Rightarrow> createDefaultNutritionGoals
                    | Some m \<Rightarrow>
                        (case JSON_parse env (jsonStr m) of
                           None \<Rightarrow> createDefaultNutritionGoals | Some v \<Rightarrow> v)),
                 [Fetch (request_url env)])
          \<and> (2 \<le> length weightData \<and> (\<forall>entry \<in> set weightData. date entry \<noteq> InvalidDate) \<longrightarrow>
               analyzeWeightTrends env weightData goalWeight weeklyGoal net =
                 (case first_match [re_fenced_json, re_fenced, re_object_lazy] text of
                    None \<Rightarrow> createDefaultWeightAnalysis
                  | Some m \<Rightarrow>
                      (case JSON_parse env (jsonStr m) of
                         None \<Rightarrow> createDefaultWeightAnalysis | Some v \<Rightarrow> v),
                  [Fetch (request_url env)])))
       \<and> analyzeExercise env d (SdkText text) =
           (case first_match [re_object_greedy] text of
              None \<Rightarrow> (exerciseFallback d, [GenerateContent])
            | Some m \<Rightarrow>
                (case JSON_parse env (fst m) of
                   None \<Rightarrow> (exerciseFallback d, [GenerateContent])
                 | Some p \<Rightarrow>
                     catch_default (exerciseFallback d) (exerciseFields d p, [GenerateContent])))"
proof -
  have food: "analyzeFoodImage env base64Image net =
      catch_default createDefaultResult
        (foodFields (parsedResult env createDefaultResult text), [Fetch (request_url env)])"
    if "response_text net = Inr text"
    using assms that by (simp add: analyzeFoodImage_def analyzeFoodImage_try_def bind_exn_def)
  have nutrition: "getNutritionRecommendations env net =
      catch_default createDefaultNutritionGoals
        (nutritionFields (parsedResult env createDefaultNutritionGoals text),
         [Fetch (request_url env)])"
    if "response_text net = Inr text"
    using assms that
    by (simp add: getNutritionRecommendations_def getNutritionRecommendations_try_def bind_exn_def)
  have trend: "analyzeWeightTrends env weightData goalWeight weeklyGoal net =
      (parsedResult env createDefaultWeightAnalysis text, [Fetch (request_url env)])"
    if "response_text net = Inr text" and "2 \<le> length weightData"
      and "\<forall>entry \<in> set weightData. date entry \<noteq> InvalidDate"
    using assms that
    by (simp add: analyzeWeightTrends_def analyzeWeightTrends_try_def bind_exn_def
        catch_default_def)
  have exercise: "analyzeExercise env d (SdkText text) =
           (case first_match [re_object_greedy] text of
              None \<Rightarrow> (exerciseFallback d, [GenerateContent])
            | Some m \<Rightarrow>
                (case JSON_parse env (fst m) of
                   None \<Rightarrow> (exerciseFallback d, [GenerateContent])
                 | Some p \<Rightarrow>
                     catch_default (exerciseFallback d) (exerciseFields d p, [GenerateContent])))"
    using assms
    by (simp add: analyzeExercise_def analyzeExercise_try_def exerciseJsonMatch_def
        catch_default_def split: option.splits)
  show ?thesis
    using food nutrition trend exercise by (simp add: parsedResult_first_match)
qed

theorem C5_extraction_patterns_witness:
  "fst (analyzeFoodImage (runtime ''AIza-key'') ''/9j/4AAQ''
          (reply ''```json\<newline>{\"calories\":120}\<newline>``` or ```{\"calories\":7}```'')) =
     JObj [(''title'', JStr ''Unknown Meal''), (''items'', JArr [JStr ''Unknown food item'']),
           (''calories'', JNum 120), (''protein'', JNum 0), (''carbs'', JNum 0),
           (''fats'', JNum 0)]
   \<and> fst (getNutritionRecommendations (runtime ''AIza-key'')
          (reply ''Plan: ```{\"calories\":1800}``` {\"calories\":1}'')) =
     JObj [(''calories'', JNum 1800), (''protein'', JNum 150), (''carbs'', JNum 200),
           (''fats'', JNum 65)]
   \<and> fst (analyzeWeightTrends (runtime ''AIza-key'')
          [\<lparr>weight = 80, date = Date 0\<rparr>, \<lparr>weight = 79, date = Date 604800000\<rparr>] 75 ''lose''
          (reply ''{\"trend\":\"losing\"} {\"trend\":\"gaining\"}'')) =
     JObj [(''trend'', JStr ''losing'')]
   \<and> fst (analyzeExercise (runtime ''AIza-key'')
          \<lparr>ex_type = ''Running'', duration = 30, description = ''Morning jog'', intensity = ''''\<rparr>
          (SdkText ''{\"caloriesBurned\":{\"kcal\":250}}'')) =
     JObj [(''title'', JStr ''Running (Moderate)''),
           (''caloriesBurned'', JObj [(''kcal'', JNum 250)]),
           (''description'', JStr ''Morning jog'')]"
proof -
  have k: "\<not> key_missing (runtime ''AIza-key'')"
    by (simp add: key_missing_def runtime_def)
  have m1: "first_match [re_fenced_json, re_fenced, re_object_lazy]
              ''```json\<newline>{\"calories\":120}\<newline>``` or ```{\"calories\":7}```'' =
            Some (''```json\<newline>{\"calories\":120}\<newline>```'', Some ''{\"calories\":120}'')"
    by (simp add: re_fenced_json_def re_fenced_def re_object_lazy_def)
  have m2: "first_match [re_fenced_json, re_fenced, re_object_lazy]
              ''Plan: ```{\"calories\":1800}``` {\"calories\":1}'' =
            Some (''```{\"calories\":1800}```'', Some ''{\"calories\":1800}'')"
    by (simp add: re_fenced_json_def re_fenced_def re_object_lazy_def)
  have m3: "first_match [re_fenced_json, re_fenced, re_object_lazy]
              ''{\"trend\":\"losing\"} {\"trend\":\"gaining\"}'' =
            Some (''{\"trend\":\"losing\"}'', None)"
    by (simp add: re_fenced_json_def re_fenced_def re_object_lazy_def)
  have m4: "first_match [re_object_greedy] ''{\"caloriesBurned\":{\"kcal\":250}}'' =
            Some (''{\"caloriesBurned\":{\"kcal\":250}}'', None)"
    by (simp add: re_object_greedy_def)
  have p1: "json_parse ''{\"calories\":120}'' = Some (JObj [(''calories'', JNum 120)])"
    by code_simp
  have p2: "json_parse ''{\"calories\":1800}'' = Some (JObj [(''calories'', JNum 1800)])"
    by code_simp
  have p3: "json_parse ''{\"trend\":\"losing\"}'' = Some (JObj [(''trend'', JStr ''losing'')])"
    by code_simp
  have p4: "json_parse ''{\"caloriesBurned\":{\"kcal\":250}}'' =
            Some (JObj [(''caloriesBurned'', JObj [(''kcal'', JNum 250)])])"
    by code_simp
  have j: "JSON_parse (runtime ''AIza-key'') = json_parse"
    by (simp add: runtime_def)
  show ?thesis
    using C5_extraction_patterns [OF k,
        of "reply ''```json\<newline>{\"calories\":120}\<newline>``` or ```{\"calories\":7}```''"
           "''```json\<newline>{\"calories\":120}\<newline>``` or ```{\"calories\":7}```''"
           "''/9j/4AAQ''" "[]" 75 "''lose''"
           "\<lparr>ex_type = ''Running'', duration = 30, description = ''Morning jog'', intensity = ''''\<rparr>"]
      C5_extraction_patterns [OF k,
        of "reply ''Plan: ```{\"calories\":1800}``` {\"calories\":1}''"
           "''Plan: ```{\"calories\":1800}``` {\"calories\":1}''"
           "''/9j/4AAQ''" "[]" 75 "''lose''"
           "\<lparr>ex_type = ''Running'', duration = 30, description = ''Morning jog'', intensity = ''''\<rparr>"]
      C5_extraction_patterns [OF k,
        of "reply ''{\"trend\":\"losing\"} {\"trend\":\"gaining\"}''"
           "''{\"trend\":\"losing\"} {\"trend\":\"gaining\"}''"
           "''/9j/4AAQ''"
           "[\<lparr>weight = 80, date = Date 0\<rparr>, \<lparr>weight = 79, date = Date 604800000\<rparr>]" 75 "''lose''"
           "\<lparr>ex_type = ''Running'', duration = 30, description = ''Morning jog'', intensity = ''''\<rparr>"]
      C5_extraction_patterns [OF k,
        of "reply ''{\"caloriesBurned\":{\"kcal\":250}}''"
           "''{\"caloriesBurned\":{\"kcal\":250}}''"
           "''/9j/4AAQ''" "[]" 75 "''lose''"
           "\<lparr>ex_type = ''Running'', duration = 30, description = ''Morning jog'', intensity = ''''\<rparr>"]
    by (simp add: m1 m2 m3 m4 p1 p2 p3 p4 j jsonStr_def catch_default_def foodFields_def
        nutritionFields_def exerciseFields_def exerciseTitle_def nullish_def js_or_def
        del: first_match.simps)
qed

section \<open>Properties of the auth provider\<close>

lemma apply_effects_simps [simp]:
  "apply_effects s [] = s"
  "apply_effects s (e # es) = apply_effects (apply_effect s e) es"
  "apply_effects s (xs @ ys) = apply_effects (apply_effects s xs) ys"
  by (simp_all add: apply_effects_def)

lemma apply_saveAuthSession [simp]:
  "authReady (apply_effects s (snd (saveAuthSession removal now u))) = authReady s"
  "initializing (apply_effects s (snd (saveAuthSession removal now u))) = initializing s"
  "isLoading (apply_effects s (snd (saveAuthSession removal now u))) = isLoading s"
  by (simp_all add: saveAuthSession_def split: option.splits)

lemma saveAuthSession_user [simp]:
  "saveAuthSession removal now (Some u) =
     (None, [SetItem AUTH_SESSION_KEY
               \<lparr>userId = user_id u, session_email = user_email u, lastLogin = now\<rparr>])"
  "saveAuthSession removal now None = (removal, [RemoveItem AUTH_SESSION_KEY])"
  by (simp_all add: saveAuthSession_def)

lemma apply_handleAuthNavigation [simp]:
  "apply_effects s (handleAuthNavigation u) = s"
  by (simp add: handleAuthNavigation_def split: option.splits)

text \<open>Whatever render the callback has seen and whatever the storage does, the callback
  never takes \<open>authReady\<close> back.\<close>

lemma authStateChanged_keeps_authReady:
  "authReady s \<Longrightarrow> authReady (apply_effects s (authStateChanged seen removal now fu))"
  by (simp add: authStateChanged_def formatUser_def Let_def split: option.splits)

text \<open>A callback that runs to its end leaves \<open>authReady\<close> true when the render that
  subscribed it had it false or the cells have it true already.\<close>

lemma authStateChanged_sets_authReady:
  assumes "fu = None \<longrightarrow> removal = None" and "\<not> authReady seen \<or> authReady s"
  shows "authReady (apply_effects s (authStateChanged seen removal now fu))"
  using assms by (auto simp add: authStateChanged_def formatUser_def Let_def split: option.splits)

lemma reconcile_ready:
  "authReady (cells p) \<Longrightarrow> list_all (authReady \<circ> snd) (reconcile p steps)"
proof (induction steps arbitrary: p)
  case Nil
  then show ?case by simp
next
  case (Cons st steps)
  show ?case
  proof (cases st)
    case (AuthEvent now fu removal)
    have "authReady (apply_effects (cells p) (authStateChanged (subscribed p) removal now fu))"
      using Cons.prems by (rule authStateChanged_keeps_authReady)
    then show ?thesis
      using Cons.IH [of "p\<lparr>cells := apply_effects (cells p)
          (authStateChanged (subscribed p) removal now fu)\<rparr>"]
      by (simp add: AuthEvent Let_def)
  next
    case Resubscribe
    then show ?thesis
      using Cons.IH [of "p\<lparr>subscribed := cells p\<rparr>"] Cons.prems by simp
  qed
qed

lemma reconcile_initial_Resubscribe:
  "reconcile initial_provider (replicate k Resubscribe @ steps) = reconcile initial_provider steps"
proof (induction k)
  case 0
  then show ?case by simp
next
  case (Suc k)
  have "initial_provider\<lparr>subscribed := cells initial_provider\<rparr> = initial_provider"
    by (simp add: initial_provider_def)
  with Suc show ?case by simp
qed




lemma filter_nav_handle [simp]:
  "filter is_navigation (handleAuthNavigation u) = handleAuthNavigation u"
  by (simp add: handleAuthNavigation_def split: option.splits)

lemma navigations_authStateChanged:
  "filter is_navigation (authStateChanged seen removal now fu) =
     (if initializing seen \<or> fu = None \<and> removal \<noteq> None then [] else navigation_of fu)"
  by (auto simp add: authStateChanged_def navigation_of_def formatUser_def
      handleAuthNavigation_def Let_def split: option.splits)

lemma authStateChanged_clears_initializing:
  assumes "fu = None \<longrightarrow> removal = None" and "initializing seen \<or> \<not> initializing s"
  shows "\<not> initializing (apply_effects s (authStateChanged seen removal now fu))"
  using assms by (auto simp add: authStateChanged_def formatUser_def Let_def split: option.splits)

lemma reconcile_serial_navigates:
  assumes "\<not> initializing (cells p)" and "\<not> initializing (subscribed p)"
  shows "map (filter is_navigation \<circ> fst) (reconcile p (serial evs)) =
           map (\<lambda>ev. navigation_of (snd ev)) evs"
  using assms
proof (induction evs arbitrary: p)
  case Nil
  then show ?case by simp
next
  case (Cons ev evs)
  obtain now fu where ev: "ev = (now, fu)" by (cases ev)
  let ?c = "apply_effects (cells p) (authStateChanged (subscribed p) None now fu)"
  have c: "\<not> initializing ?c"
    using Cons.prems by (intro authStateChanged_clears_initializing) simp_all
  have "map (filter is_navigation \<circ> fst) (reconcile (p\<lparr>cells := ?c, subscribed := ?c\<rparr>) (serial evs)) =
          map (\<lambda>ev. navigation_of (snd ev)) evs"
    using c by (intro Cons.IH) simp_all
  then show ?case
    using Cons.prems by (simp add: ev Let_def navigations_authStateChanged comp_def)
qed




text \<open>
  C8. \<^verbatim>\<open>signIn\<close>, \<^verbatim>\<open>signUp\<close>, \<^verbatim>\<open>signOut\<close> and \<^verbatim>\<open>deleteAccount\<close> each call
  \<^verbatim>\<open>setIsLoading(true)\<close> first. When the Firebase call fails (or, in \<^verbatim>\<open>signOut\<close> and
  \<^verbatim>\<open>deleteAccount\<close>, the removal of the stored session before it), the last thing each
  does is \<^verbatim>\<open>setIsLoading(false)\<close>, and the caller receives the failure: unchanged from
  the three others, and from \<^verbatim>\<open>deleteAccount\<close> unchanged unless its code is
  \<^verbatim>\<open>auth/requires-recent-login\<close>, which alone is replaced by the instruction to sign out
  and sign in again. (Without a current user \<^verbatim>\<open>deleteAccount\<close> fails the same way with
  its own error.)
\<close>

theorem C8_auth_operations:
  "(\<exists>rest. snd (signIn removal now em pw r1) = SetIsLoading True # rest)
 \<and> (\<exists>rest. snd (signUp removal now em pw r1) = SetIsLoading True # rest)
 \<and> (\<exists>rest. snd (signOut removal now r2) = SetIsLoading True # rest)
 \<and> (\<exists>rest. snd (deleteAccount removal now cu r2) = SetIsLoading True # rest)
 \<and> (\<forall>e. r1 = Inl e \<longrightarrow>
        fst (signIn removal now em pw r1) = Inl e
      \<and> last (snd (signIn removal now em pw r1)) = SetIsLoading False
      \<and> \<not> isLoading (apply_effects s (snd (signIn removal now em pw r1)))
      \<and> fst (signUp removal now em pw r1) = Inl e
      \<and> last (snd (signUp removal now em pw r1)) = SetIsLoading False
      \<and> \<not> isLoading (apply_effects s (snd (signUp removal now em pw r1))))
 \<and> (\<forall>e. removal = Some e \<or> removal = None \<and> r2 = Inl e \<longrightarrow>
        fst (signOut removal now r2) = Inl e
      \<and> last (snd (signOut removal now r2)) = SetIsLoading False
      \<and> \<not> isLoading (apply_effects s (snd (signOut removal now r2)))
      \<and> (\<forall>u. cu = Some u \<longrightarrow>
            fst (deleteAccount removal now cu r2) =
              Inl (if code e = Some ''auth/requires-recent-login''
                   then Thrown None
                     ''For security reasons, please sign out and sign in again before deleting your account.''
                   else e))
      \<and> last (snd (deleteAccount removal now cu r2)) = SetIsLoading False
      \<and> \<not> isLoading (apply_effects s (snd (deleteAccount removal now cu r2))))
 \<and> (cu = None \<longrightarrow>
        fst (deleteAccount removal now cu r2) = Inl (Thrown None ''No authenticated user found'')
      \<and> last (snd (deleteAccount removal now cu r2)) = SetIsLoading False
      \<and> \<not> isLoading (apply_effects s (snd (deleteAccount removal now cu r2))))"
proof -
  have entry: "(\<exists>rest. snd (signIn removal now em pw r1) = SetIsLoading True # rest)
     \<and> (\<exists>rest. snd (signUp removal now em pw r1) = SetIsLoading True # rest)
     \<and> (\<exists>rest. snd (signOut removal now r2) = SetIsLoading True # rest)
     \<and> (\<exists>rest. snd (deleteAccount removal now cu r2) = SetIsLoading True # rest)"
    by (simp add: signIn_def signUp_def signOut_def deleteAccount_def formatUser_def
        split: sum.splits option.splits)
  have sign_in_up: "\<forall>e. r1 = Inl e \<longrightarrow>
        fst (signIn removal now em pw r1) = Inl e
      \<and> last (snd (signIn removal now em pw r1)) = SetIsLoading False
      \<and> \<not> isLoading (apply_effects s (snd (signIn removal now em pw r1)))
      \<and> fst (signUp removal now em pw r1) = Inl e
      \<and> last (snd (signUp removal now em pw r1)) = SetIsLoading False
      \<and> \<not> isLoading (apply_effects s (snd (signUp removal now em pw r1)))"
    by (simp add: signIn_def signUp_def)
  have sign_out: "\<forall>e. removal = Some e \<or> removal = None \<and> r2 = Inl e \<longrightarrow>
        fst (signOut removal now r2) = Inl e
      \<and> last (snd (signOut removal now r2)) = SetIsLoading False
      \<and> \<not> isLoading (apply_effects s (snd (signOut removal now r2)))"
    by (auto simp add: signOut_def)
  have del: "\<forall>e. removal = Some e \<or> removal = None \<and> r2 = Inl e \<longrightarrow>
        (\<forall>u. cu = Some u \<longrightarrow>
            fst (deleteAccount removal now cu r2) =
              Inl (if code e = Some ''auth/requires-recent-login''
                   then Thrown None
                     ''For security reasons, please sign out and sign in again before deleting your account.''
                   else e))
      \<and> last (snd (deleteAccount removal now cu r2)) = SetIsLoading False
      \<and> \<not> isLoading (apply_effects s (snd (deleteAccount removal now cu r2)))"
    by (auto simp add: deleteAccount_def rethrown_def reloginMessage_def split: option.splits)
  have no_user: "cu = None \<longrightarrow>
        fst (deleteAccount removal now cu r2) = Inl (Thrown None ''No authenticated user found'')
      \<and> last (snd (deleteAccount removal now cu r2)) = SetIsLoading False
      \<and> \<not> isLoading (apply_effects s (snd (deleteAccount removal now cu r2)))"
    by (simp add: deleteAccount_def)
  from entry sign_in_up sign_out del no_user show ?thesis by blast
qed

theorem C8_auth_operations_witness:
  "fst (signIn None 0 ''a@b.c'' ''pw'' (Inl (Thrown (Some ''auth/requires-recent-login'') ''m'')))
     = Inl (Thrown (Some ''auth/requires-recent-login'') ''m'')
   \<and> snd (signOut None 0 (Inl (Thrown (Some ''auth/network-request-failed'') ''m'')))
     = [SetIsLoading True, RemoveItem ''calpal_auth_session'', FirebaseSignOut, SetIsLoading False]
   \<and> fst (deleteAccount None 0 (Some \<lparr>uid = ''u1'', email = None\<rparr>)
        (Inl (Thrown (Some ''auth/requires-recent-login'') ''m'')))
     = Inl (Thrown None
         ''For security reasons, please sign out and sign in again before deleting your account.'')
   \<and> fst (deleteAccount None 0 None (Inl (Thrown (Some ''auth/requires-recent-login'') ''m'')))
     = Inl (Thrown None ''No authenticated user found'')"
  using C8_auth_operations [of None 0 "''a@b.c''" "''pw''"
      "Inl (Thrown (Some ''auth/requires-recent-login'') ''m'')"
      "Inl (Thrown (Some ''auth/requires-recent-login'') ''m'')"
      "Some \<lparr>uid = ''u1'', email = None\<rparr>" initial_state]
    C8_auth_operations [of None 0 "''a@b.c''" "''pw''"
      "Inl (Thrown (Some ''auth/requires-recent-login'') ''m'')"
      "Inl (Thrown (Some ''auth/requires-recent-login'') ''m'')"
      "None" initial_state]
  by (simp add: signOut_def AUTH_SESSION_KEY_def)

section \<open>Properties of the billing configuration\<close>

text \<open>
  C9, as stated, does not hold. On a platform that is neither \<^verbatim>\<open>ios\<close> nor \<^verbatim>\<open>android\<close> an
  empty key passes the validation and the SDK is called with it; and with every value
  present the result is false when \<^verbatim>\<open>Purchases.configure\<close> throws.
\<close>

theorem C9_platform_key_counterexample:
  "getApiKey ''web'' (RC '''' '''') = ''''
   \<and> configureRevenueCat ''web'' (RC '''' '''')
        \<lparr>configure_throws = False, getCustomerInfo_throws = False\<rparr>
      = (True, [PurchasesConfigure '''', GetCustomerInfo])
   \<and> configureRevenueCat ''ios'' (RC ''appl_key'' ''goog_key'')
        \<lparr>configure_throws = True, getCustomerInfo_throws = False\<rparr>
      = (False, [PurchasesConfigure ''appl_key'', ConsoleError ''Failed to configure RevenueCat:''])"
  by (simp add: getApiKey_def RC_def configureRevenueCat_def validateRevenueCatConfig_def)

text \<open>
  C9, amended. \<^verbatim>\<open>configureRevenueCat\<close> returns false without any call of the billing SDK
  when the platform is \<^verbatim>\<open>ios\<close> or \<^verbatim>\<open>android\<close> and the key of that platform is empty, or
  when a product identifier, the entitlement identifier or the offering identifier is empty.
  When the key that \<^verbatim>\<open>getApiKey\<close> returns and all identifiers are non-empty, it calls
  \<^verbatim>\<open>Purchases.configure\<close> with that key; if that call throws, the result is false;
  otherwise it calls \<^verbatim>\<open>getCustomerInfo\<close> once, logs a failure of it, and returns true.
\<close>

theorem C9_configureRevenueCat:
  "((os = ''ios'' \<or> os = ''android'') \<and> getApiKey os cfg = ''''
      \<or> PREMIUM_MONTHLY cfg = '''' \<or> PREMIUM_YEARLY cfg = ''''
      \<or> PREMIUM cfg = '''' \<or> DEFAULT cfg = ''''
     \<longrightarrow> fst (configureRevenueCat os cfg sdk) = False
         \<and> filter is_sdk_call (snd (configureRevenueCat os cfg sdk)) = [])
 \<and> (getApiKey os cfg \<noteq> '''' \<and> PREMIUM_MONTHLY cfg \<noteq> '''' \<and> PREMIUM_YEARLY cfg \<noteq> ''''
      \<and> PREMIUM cfg \<noteq> '''' \<and> DEFAULT cfg \<noteq> ''''
     \<longrightarrow> configureRevenueCat os cfg sdk =
           (if configure_throws sdk then
              (False, [PurchasesConfigure (getApiKey os cfg),
                       ConsoleError ''Failed to configure RevenueCat:''])
            else
              (True, [PurchasesConfigure (getApiKey os cfg), GetCustomerInfo]
                     @ (if getCustomerInfo_throws sdk
                        then [ConsoleWarn ''Could not fetch initial customer info:'']
                        else []))))"
  by (auto simp add: getApiKey_def configureRevenueCat_def validateRevenueCatConfig_def
      split: if_splits)

theorem C9_configureRevenueCat_witness:
  "configureRevenueCat ''android'' (RC ''appl_key'' '''')
      \<lparr>configure_throws = False, getCustomerInfo_throws = False\<rparr>
     = (False, [ConsoleWarn ''RevenueCat Android API key is not configured'',
                ConsoleWarn ''RevenueCat configuration validation failed''])
   \<and> configureRevenueCat ''ios'' (RC ''appl_key'' '''')
      \<lparr>configure_throws = False, getCustomerInfo_throws = True\<rparr>
     = (True, [PurchasesConfigure ''appl_key'', GetCustomerInfo,
               ConsoleWarn ''Could not fetch initial customer info:''])"
  using C9_configureRevenueCat [of "''android''" "RC ''appl_key'' ''''"
      "\<lparr>configure_throws = False, getCustomerInfo_throws = False\<rparr>"]
    C9_configureRevenueCat [of "''ios''" "RC ''appl_key'' ''''"
      "\<lparr>configure_throws = False, getCustomerInfo_throws = True\<rparr>"]
  by (simp add: getApiKey_def RC_def configureRevenueCat_def validateRevenueCatConfig_def)

text \<open>
  C10. On a platform that is neither \<^verbatim>\<open>ios\<close> nor \<^verbatim>\<open>android\<close>,
  \<^verbatim>\<open>validateRevenueCatConfig\<close> checks no API key and returns true, also when both keys are
  empty; \<^verbatim>\<open>configureRevenueCat\<close> then calls \<^verbatim>\<open>Purchases.configure\<close> with the Android
  key that \<^verbatim>\<open>getApiKey\<close> returns, empty or not.
\<close>

theorem C10_other_platform_skips_key_checks:
  assumes "os \<noteq> ''ios''" and "os \<noteq> ''android''"
  shows "validateRevenueCatConfig os (RC ios_key android_key) = (True, [])
       \<and> validateRevenueCatConfig os (RC '''' '''') = (True, [])
       \<and> getApiKey os (RC ios_key android_key) = android_key
       \<and> (\<exists>rest. configureRevenueCat os (RC ios_key android_key) sdk =
              (\<not> configure_throws sdk, PurchasesConfigure android_key # rest))"
  using assms
  by (simp add: getApiKey_def RC_def configureRevenueCat_def validateRevenueCatConfig_def)

theorem C10_other_platform_witness:
  "''web'' \<noteq> ''ios'' \<and> ''web'' \<noteq> ''android''
   \<and> validateRevenueCatConfig ''web'' (RC '''' '''') = (True, [])
   \<and> configureRevenueCat ''web'' (RC '''' '''')
        \<lparr>configure_throws = False, getCustomerInfo_throws = False\<rparr>
      = (True, [PurchasesConfigure '''', GetCustomerInfo])"
  using C10_other_platform_skips_key_checks [of "''web''" "''''" "''''"
      "\<lparr>configure_throws = False, getCustomerInfo_throws = False\<rparr>"]
  by (simp add: RC_def configureRevenueCat_def validateRevenueCatConfig_def getApiKey_def)
end
